theory Spec2Isabelle
  imports Complex_Main "HOL-Library.AList" "HOL-Library.Multiset"
begin

section \<open>Python strings\<close>

text \<open>
  A Python \<open>str\<close> is a sequence of Unicode code points, so text is a list of natural
  numbers. The sources are NFC-normalised: an accented letter is one code point
  (\<open>U+00E9\<close> is 233). \<open>ascii\<close> reads a literal of ASCII characters.
\<close>

type_synonym ustr = "nat list"

definition ascii :: "string \<Rightarrow> ustr" where
  "ascii s = map of_char s"

text \<open>
  \<open>str.lower()\<close>, as far as a test \<open>keyword in query.lower()\<close> can observe it when the
  keyword has no code point above \<open>U+00FF\<close>, which holds for every keyword of the
  program.
  \<^item> Up to \<open>U+00FF\<close> the result is exact: \<open>A\<close>--\<open>Z\<close> and the capital letters
    \<open>U+00C0\<close>--\<open>U+00DE\<close> (without the multiplication sign \<open>U+00D7\<close>) move up by 32, every
    other code point stays.
  \<^item> Five code points above \<open>U+00FF\<close> have a lower case that reaches back into that
    range, and are exact too: \<open>U+0130\<close> gives \<open>i\<close> followed by \<open>U+0307\<close>, \<open>U+0178\<close> gives
    \<open>U+00FF\<close>, \<open>U+1E9E\<close> gives \<open>U+00DF\<close>, the Kelvin sign \<open>U+212A\<close> gives \<open>k\<close>, the
    Angstrom sign \<open>U+212B\<close> gives \<open>U+00E5\<close>.
  \<^item> Every other code point above \<open>U+00FF\<close> is kept as it is. \<open>str.lower()\<close> turns it
    into one or more code points that are again all above \<open>U+00FF\<close> (a Greek or
    Cyrillic capital into its small letter, say), so in both texts this place separates
    the same runs of code points up to \<open>U+00FF\<close>, and a keyword occurs in the one text
    exactly when it occurs in the other.
\<close>

definition lower_cp :: "nat \<Rightarrow> ustr" where
  "lower_cp c =
     (if (65 \<le> c \<and> c \<le> 90) \<or> (192 \<le> c \<and> c \<le> 222 \<and> c \<noteq> 215) then [c + 32]
      else if c = 304 then [105, 775]
      else if c = 376 then [255]
      else if c = 7838 then [223]
      else if c = 8490 then [107]
      else if c = 8491 then [229]
      else [c])"

definition lower :: "ustr \<Rightarrow> ustr" where
  "lower s = concat (map lower_cp s)"

text \<open>\<open>kw in s\<close> on strings: \<open>kw\<close> occurs in \<open>s\<close> as a contiguous run.\<close>

fun starts_with :: "ustr \<Rightarrow> ustr \<Rightarrow> bool" where
  "starts_with [] s = True"
| "starts_with (k # ks) [] = False"
| "starts_with (k # ks) (c # cs) = (k = c \<and> starts_with ks cs)"

fun str_in :: "ustr \<Rightarrow> ustr \<Rightarrow> bool" where
  "str_in kw [] = (kw = [])"
| "str_in kw (c # cs) = (starts_with kw (c # cs) \<or> str_in kw cs)"

text \<open>\<open>any(keyword in query_lower for keyword in keywords)\<close>\<close>

definition any_in :: "ustr list \<Rightarrow> ustr \<Rightarrow> bool" where
  "any_in keywords query_lower = list_ex (\<lambda>keyword. str_in keyword query_lower) keywords"

text \<open>\<open>sep.join(parts)\<close>\<close>

fun join :: "ustr \<Rightarrow> ustr list \<Rightarrow> ustr" where
  "join sep [] = []"
| "join sep [p] = p"
| "join sep (p # q # ps) = p @ sep @ join sep (q # ps)"

text \<open>
  \<open>s.replace('_', ' ')\<close> and \<open>s.title()\<close>. \<open>title\<close> is exact on ASCII text, which
  stage names are: a letter that follows a letter is lower-cased, any other letter is
  upper-cased, and everything else is kept.
\<close>

definition replace_underscore :: "ustr \<Rightarrow> ustr" where
  "replace_underscore s = map (\<lambda>c. if c = 95 then 32 else c) s"

definition is_letter :: "nat \<Rightarrow> bool" where
  "is_letter c = ((65 \<le> c \<and> c \<le> 90) \<or> (97 \<le> c \<and> c \<le> 122))"

definition upper_cp :: "nat \<Rightarrow> nat" where
  "upper_cp c = (if 97 \<le> c \<and> c \<le> 122 then c - 32 else c)"

definition lower_letter :: "nat \<Rightarrow> nat" where
  "lower_letter c = (if 65 \<le> c \<and> c \<le> 90 then c + 32 else c)"

fun title_from :: "bool \<Rightarrow> ustr \<Rightarrow> ustr" where
  "title_from previous_is_cased [] = []"
| "title_from previous_is_cased (c # cs) =
     (if is_letter c
      then (if previous_is_cased then lower_letter c else upper_cp c) # title_from True cs
      else c # title_from False cs)"

definition title :: "ustr \<Rightarrow> ustr" where
  "title s = title_from False s"

section \<open>The master agent: query analysis (agent.py)\<close>

text \<open>
  \<open>MasterAgent.agent_capabilities\<close>, a dict in insertion order. Each entry also has a
  \<open>description\<close> and \<open>strengths\<close>, which no function below reads.
\<close>

record capability =
  cap_name :: ustr
  cap_keywords :: "ustr list"

definition agent_capabilities :: "(ustr \<times> capability) list" where
  "agent_capabilities =
    [(ascii ''data_analysis'',
      \<lparr>cap_name = ascii ''An'' @ [225] @ ascii ''lisis de Datos'',
       cap_keywords = [ascii ''an'' @ [225] @ ascii ''lisis'', ascii ''datos'', ascii ''tendencia'',
                   ascii ''patr'' @ [243] @ ascii ''n'', ascii ''estad'' @ [237] @ ascii ''stica'',
                   ascii ''m'' @ [233] @ ascii ''trica'', ascii ''gr'' @ [225] @ ascii ''fico'',
                   ascii ''visualizaci'' @ [243] @ ascii ''n'']\<rparr>),
     (ascii ''business_advisor'',
      \<lparr>cap_name = ascii ''Asesor de Negocios'',
       cap_keywords = [ascii ''negocio'', ascii ''recomendaci'' @ [243] @ ascii ''n'', ascii ''estrategia'',
                   ascii ''turismo'', ascii ''retail'', ascii ''restaurante'', ascii ''transporte'',
                   ascii ''servicio'']\<rparr>),
     (ascii ''research'',
      \<lparr>cap_name = ascii ''Investigador'',
       cap_keywords = [ascii ''investigar'', ascii ''buscar'', ascii ''informaci'' @ [243] @ ascii ''n'',
                   ascii ''contexto'', ascii ''fuente'', ascii ''estudio'',
                   ascii ''investigaci'' @ [243] @ ascii ''n'']\<rparr>),
     (ascii ''chat'',
      \<lparr>cap_name = ascii ''Chat General'',
       cap_keywords = [ascii ''pregunta'', ascii ''ayuda'', ascii ''informaci'' @ [243] @ ascii ''n'',
                   ascii ''general'', ascii ''b'' @ [225] @ ascii ''sico'']\<rparr>)]"

text \<open>
  The caller's context is \<open>None\<close> or a dict. Of its values only \<open>data_loaded\<close> is read
  here; the data frames and filters it also carries are opaque.
\<close>

datatype cval = CBool bool | COpaque

type_synonym request_context = "(string \<times> cval) list option"

text \<open>
  \<open>context and context.get('data_loaded', False)\<close>: a falsy context (\<open>None\<close> or the
  empty dict) is itself the value, otherwise the entry, \<open>False\<close> when there is none.
\<close>

datatype data_flag = FlagNone | FlagEmptyDict | FlagValue cval

definition has_data_context :: "request_context \<Rightarrow> data_flag" where
  "has_data_context context =
     (case context of
        None \<Rightarrow> FlagNone
      | Some [] \<Rightarrow> FlagEmptyDict
      | Some d \<Rightarrow> (case map_of d ''data_loaded'' of Some v \<Rightarrow> FlagValue v | None \<Rightarrow> FlagValue (CBool False)))"

definition complexity_indicators :: "(ustr \<times> ustr list) list" where
  "complexity_indicators =
    [(ascii ''high'', [ascii ''completo'', ascii ''integral'', ascii ''estrat'' @ [233] @ ascii ''gico'',
                       ascii ''an'' @ [225] @ ascii ''lisis profundo'',
                       ascii ''investigaci'' @ [243] @ ascii ''n'',
                       ascii ''recomendaci'' @ [243] @ ascii ''n'']),
     (ascii ''medium'', [ascii ''an'' @ [225] @ ascii ''lisis'', ascii ''comparar'', ascii ''evaluar'',
                         ascii ''estudiar'', ascii ''examinar'']),
     (ascii ''low'', [ascii ''pregunta'', ascii ''informaci'' @ [243] @ ascii ''n'', ascii ''ayuda'',
                      ascii ''b'' @ [225] @ ascii ''sico''])]"

text \<open>The loop over \<open>complexity_indicators.items()\<close> with its \<open>break\<close>.\<close>

fun complexity_loop :: "(ustr \<times> ustr list) list \<Rightarrow> ustr \<Rightarrow> ustr \<Rightarrow> ustr" where
  "complexity_loop [] query_lower complexity = complexity"
| "complexity_loop ((level, indicators) # rest) query_lower complexity =
     (if any_in indicators query_lower then level
      else complexity_loop rest query_lower complexity)"

definition classify_query_type :: "ustr \<Rightarrow> ustr" where
  "classify_query_type query_lower =
     (if any_in [ascii ''negocio'', ascii ''recomendaci'' @ [243] @ ascii ''n'', ascii ''estrategia'',
                 ascii ''turismo'', ascii ''retail''] query_lower
      then ascii ''business''
      else if any_in [ascii ''an'' @ [225] @ ascii ''lisis'', ascii ''datos'', ascii ''tendencia'',
                      ascii ''patr'' @ [243] @ ascii ''n'', ascii ''m'' @ [233] @ ascii ''trica''] query_lower
      then ascii ''analysis''
      else if any_in [ascii ''investigar'', ascii ''buscar'', ascii ''informaci'' @ [243] @ ascii ''n'',
                      ascii ''contexto''] query_lower
      then ascii ''research''
      else if any_in [ascii ''completo'', ascii ''integral'', ascii ''todo'', ascii ''todos''] query_lower
      then ascii ''comprehensive''
      else ascii ''general'')"

text \<open>The capability loop of \<open>_analyze_query\<close>, with the default when it finds nothing.\<close>

definition matched_capabilities :: "ustr \<Rightarrow> ustr list" where
  "matched_capabilities query_lower =
     map fst (filter (\<lambda>(agent_id, capabilities). any_in (cap_keywords capabilities) query_lower)
                     agent_capabilities)"

definition required_capabilities :: "ustr \<Rightarrow> ustr list" where
  "required_capabilities query_lower =
     (let required = matched_capabilities query_lower
      in if required = [] then [ascii ''chat''] else required)"

text \<open>The analysis result is a dict with exactly the four keys built here.\<close>

datatype aval = AStr ustr | AList "ustr list" | AFlag data_flag

type_synonym analysis = "(string \<times> aval) list"

definition analyze_query :: "ustr \<Rightarrow> request_context \<Rightarrow> analysis" where
  "analyze_query query context =
     (let query_lower = lower query
      in [(''complexity'', AStr (complexity_loop complexity_indicators query_lower (ascii ''low''))),
          (''required_capabilities'', AList (required_capabilities query_lower)),
          (''has_data_context'', AFlag (has_data_context context)),
          (''query_type'', AStr (classify_query_type query_lower))])"

section \<open>Workflow templates and selection (enhanced_workflows.py)\<close>

record workflow_template =
  wf_name :: ustr
  wf_description :: ustr
  wf_agents :: "ustr list"
  wf_workflow :: "ustr list"
  output_format :: ustr

definition strategic_analysis :: workflow_template where
  "strategic_analysis =
    \<lparr>wf_name = ascii ''An'' @ [225] @ ascii ''lisis Estrat'' @ [233] @ ascii ''gico Completo'',
     wf_description = ascii ''An'' @ [225] @ ascii ''lisis integral que combina datos, investigaci'' @ [243]
        @ ascii ''n y recomendaciones estrat'' @ [233] @ ascii ''gicas'',
     wf_agents = [ascii ''data_analysis'', ascii ''research'', ascii ''business_advisor''],
     wf_workflow = [ascii ''data_analysis'', ascii ''research'', ascii ''business_advisor'',
                    ascii ''cross_validation'', ascii ''strategic_synthesis''],
     output_format = ascii ''strategic_report''\<rparr>"

definition market_analysis :: workflow_template where
  "market_analysis =
    \<lparr>wf_name = ascii ''An'' @ [225] @ ascii ''lisis de Mercado Integrado'',
     wf_description = ascii ''An'' @ [225]
        @ ascii ''lisis de mercado que combina datos internos con investigaci'' @ [243] @ ascii ''n externa'',
     wf_agents = [ascii ''data_analysis'', ascii ''research'', ascii ''business_advisor''],
     wf_workflow = [ascii ''data_analysis'', ascii ''research'', ascii ''business_advisor'',
                    ascii ''competitive_analysis'', ascii ''implementation_plan''],
     output_format = ascii ''market_report''\<rparr>"

definition predictive_analysis :: workflow_template where
  "predictive_analysis =
    \<lparr>wf_name = ascii ''An'' @ [225] @ ascii ''lisis Predictivo Avanzado'',
     wf_description = ascii ''An'' @ [225] @ ascii ''lisis predictivo que combina datos hist'' @ [243]
        @ ascii ''ricos con factores externos'',
     wf_agents = [ascii ''data_analysis'', ascii ''research'', ascii ''business_advisor''],
     wf_workflow = [ascii ''data_analysis'', ascii ''research'', ascii ''business_advisor'',
                    ascii ''predictive_modeling'', ascii ''scenario_planning''],
     output_format = ascii ''predictive_report''\<rparr>"

definition holiday_impact_analysis :: workflow_template where
  "holiday_impact_analysis =
    \<lparr>wf_name = ascii ''An'' @ [225] @ ascii ''lisis de Impacto de Feriados'',
     wf_description = ascii ''An'' @ [225] @ ascii ''lisis espec'' @ [237]
        @ ascii ''fico del impacto de feriados en el negocio'',
     wf_agents = [ascii ''data_analysis'', ascii ''research'', ascii ''business_advisor''],
     wf_workflow = [ascii ''data_analysis'', ascii ''research'', ascii ''business_advisor'',
                    ascii ''impact_assessment'', ascii ''holiday_strategy''],
     output_format = ascii ''holiday_report''\<rparr>"

definition seasonal_analysis :: workflow_template where
  "seasonal_analysis =
    \<lparr>wf_name = ascii ''An'' @ [225] @ ascii ''lisis Estacional Integral'',
     wf_description = ascii ''An'' @ [225] @ ascii ''lisis completo de patrones estacionales y su impacto'',
     wf_agents = [ascii ''data_analysis'', ascii ''research'', ascii ''business_advisor''],
     wf_workflow = [ascii ''data_analysis'', ascii ''research'', ascii ''business_advisor'',
                    ascii ''seasonal_optimization'', ascii ''year_round_strategy''],
     output_format = ascii ''seasonal_report''\<rparr>"

text \<open>\<open>EnhancedWorkflows.workflow_templates\<close>: the registry, in insertion order.\<close>

definition workflow_templates :: "(ustr \<times> workflow_template) list" where
  "workflow_templates =
    [(ascii ''strategic_analysis'', strategic_analysis),
     (ascii ''market_analysis'', market_analysis),
     (ascii ''predictive_analysis'', predictive_analysis),
     (ascii ''holiday_impact_analysis'', holiday_impact_analysis),
     (ascii ''seasonal_analysis'', seasonal_analysis)]"

text \<open>The second argument of \<open>get_workflow_for_query\<close> is never read.\<close>

definition get_workflow_for_query :: "ustr \<Rightarrow> 'c \<Rightarrow> workflow_template" where
  "get_workflow_for_query query context =
     (let query_lower = lower query
      in if any_in [ascii ''estrat'' @ [233] @ ascii ''gico'', ascii ''estrategia'', ascii ''plan'',
                    ascii ''completo'', ascii ''integral''] query_lower
         then strategic_analysis
         else if any_in [ascii ''mercado'', ascii ''competencia'', ascii ''competitivo'',
                         ascii ''benchmark''] query_lower
         then market_analysis
         else if any_in [ascii ''predicci'' @ [243] @ ascii ''n'', ascii ''pron'' @ [243] @ ascii ''stico'',
                         ascii ''futuro'', ascii ''proyecci'' @ [243] @ ascii ''n''] query_lower
         then predictive_analysis
         else if any_in [ascii ''feriado'', ascii ''vacaciones'', ascii ''navidad'',
                         ascii ''a'' @ [241] @ ascii ''o nuevo''] query_lower
         then holiday_impact_analysis
         else if any_in [ascii ''estacional'', ascii ''temporada'', ascii ''verano'',
                         ascii ''invierno''] query_lower
         then seasonal_analysis
         else strategic_analysis)"

text \<open>
  An exception that leaves a function. On the values modelled the functions below can
  raise two: the \<open>AttributeError\<close> of calling \<open>.get\<close> or \<open>.lower\<close> on a value that has
  no such method, and the \<open>TypeError\<close> of looking up an unhashable value in a dict.
\<close>

datatype exn = AttributeError | TypeError

text \<open>
  \<open>MasterAgent._select_workflow\<close>: the query is read from the analysis result with
  \<open>analysis_result.get('query', '')\<close>, then lower-cased by the selector.
\<close>

definition select_workflow :: "analysis \<Rightarrow> exn + workflow_template" where
  "select_workflow analysis_result =
     (case map_of analysis_result ''query'' of
        None \<Rightarrow> Inr (get_workflow_for_query [] analysis_result)
      | Some (AStr query) \<Rightarrow> Inr (get_workflow_for_query query analysis_result)
      | Some _ \<Rightarrow> Inl AttributeError)"

section \<open>Stage results and providers\<close>

text \<open>
  The values a provider stores in the dicts of its insights and recommendations. The
  executor never looks into them; it tells them apart in two ways only, by their truth
  value (\<open>if insight\<close>) and by whether they can be hashed (the lookup
  \<open>priority_order.get\<close>). A string, \<open>None\<close> and an integer can be hashed. A list
  cannot, and neither can a dict or a set, for which the list stands here.
\<close>

datatype pyval = VStr ustr | VNone | VInt int | VList "pyval list"

fun truthy :: "pyval \<Rightarrow> bool" where
  "truthy (VStr s) = (s \<noteq> [])"
| "truthy VNone = False"
| "truthy (VInt n) = (n \<noteq> 0)"
| "truthy (VList xs) = (xs \<noteq> [])"

fun hashable :: "pyval \<Rightarrow> bool" where
  "hashable (VStr s) = True"
| "hashable VNone = True"
| "hashable (VInt n) = True"
| "hashable (VList xs) = False"

text \<open>
  An element of a provider's \<open>insights\<close> or \<open>recommendations\<close> list is a dict or a
  plain string: the research provider builds dicts with a \<open>description\<close> (and, for
  recommendations, a \<open>priority\<close>), the data-analysis provider returns its insights and
  the business advisor its recommendations as lists of strings. Of a provider's raw
  result, a dict, only these two optional entries are read by the executor.
\<close>

datatype item = DictItem "(string \<times> pyval) list" | StrItem ustr

record raw_result =
  raw_insights :: "item list option"
  raw_recommendations :: "item list option"

text \<open>
  The dicts stored under \<open>results['stages']\<close>, one constructor for each shape the
  executor builds:
  \<^item> \<open>{'success': True, 'summary': summary, 'raw_result': result}\<close>
  \<^item> \<open>{'success': False, 'error': str(e)}\<close>
  \<^item> \<open>{'consistency_score', 'conflicts', 'agreements', 'recommendations'}\<close>
  \<^item> \<open>{'executive_summary', 'key_findings', 'strategic_opportunities', 'risk_factors',
     'success_metrics'}\<close>
  \<^item> \<open>{'success': True, key: text}\<close> of the placeholder stages.
\<close>

datatype stage_result =
    AgentSuccess ustr raw_result
  | AgentFailure ustr
  | Validation rat "ustr list" "ustr list" "ustr list"
  | Synthesis ustr "pyval list" "ustr list" "ustr list" "ustr list"
  | Placeholder string ustr

type_synonym stages = "(ustr \<times> stage_result) list"

text \<open>\<open>stage_result.get('success', False)\<close>\<close>

fun success :: "stage_result \<Rightarrow> bool" where
  "success (AgentSuccess summary result) = True"
| "success (AgentFailure error) = False"
| "success (Validation score conflicts agreements recs) = False"
| "success (Synthesis summary findings opportunities risks metrics) = False"
| "success (Placeholder key text) = True"

text \<open>
  A provider: the call (\<open>analyze_user_query\<close>, \<open>research_topic\<close> or
  \<open>analyze_business_query\<close>) and its summary method (\<open>get_analysis_summary\<close>,
  \<open>get_research_summary\<close> or \<open>get_business_summary\<close>). Either returns, or raises an
  exception \<open>e\<close>, given as \<open>Inl (str(e))\<close>. The dict \<open>agents\<close> maps a name to a provider.
\<close>

record agent =
  invoke :: "ustr \<Rightarrow> request_context \<Rightarrow> ustr + raw_result"
  get_summary :: "raw_result \<Rightarrow> ustr + ustr"

type_synonym agents = "ustr \<rightharpoonup> agent"

text \<open>
  The body of one branch of \<open>_execute_agent_stage\<close> inside its \<open>try\<close>. A missing key
  raises \<open>KeyError(stage)\<close>, whose \<open>str\<close> is the name in single quotes.
\<close>

definition call_agent :: "ustr \<Rightarrow> ustr \<Rightarrow> request_context \<Rightarrow> agents \<Rightarrow> stage_result" where
  "call_agent stage query context agents =
     (case agents stage of
        None \<Rightarrow> AgentFailure ([39] @ stage @ [39])
      | Some agent \<Rightarrow>
          (case invoke agent query context of
             Inl e \<Rightarrow> AgentFailure e
           | Inr result \<Rightarrow>
               (case get_summary agent result of
                  Inl e \<Rightarrow> AgentFailure e
                | Inr summary \<Rightarrow> AgentSuccess summary result)))"

text \<open>For any other stage name the function falls off its end and returns \<open>None\<close>.\<close>

definition execute_agent_stage ::
    "ustr \<Rightarrow> ustr \<Rightarrow> request_context \<Rightarrow> agents \<Rightarrow> stage_result option" where
  "execute_agent_stage stage query context agents =
     (if stage = ascii ''data_analysis'' then Some (call_agent stage query context agents)
      else if stage = ascii ''research'' then Some (call_agent stage query context agents)
      else if stage = ascii ''business_advisor'' then Some (call_agent stage query context agents)
      else None)"

section \<open>Derived stages\<close>

text \<open>
  \<open>[x.get('description', '') for x in xs]\<close>: \<open>.get\<close> exists on a dict only, so a
  string element raises \<open>AttributeError\<close>.
\<close>

fun descriptions :: "item list \<Rightarrow> exn + pyval list" where
  "descriptions [] = Inr []"
| "descriptions (StrItem s # xs) = Inl AttributeError"
| "descriptions (DictItem d # xs) =
     (case descriptions xs of
        Inl e \<Rightarrow> Inl e
      | Inr ds \<Rightarrow>
          Inr ((case map_of d ''description'' of Some v \<Rightarrow> v | None \<Rightarrow> VStr []) # ds))"

definition listed :: "item list option \<Rightarrow> exn + pyval list" where
  "listed entry = (case entry of None \<Rightarrow> Inr [] | Some xs \<Rightarrow> descriptions xs)"

text \<open>
  \<open>_extract_key_insights\<close>: only a successful agent stage has a \<open>raw_result\<close> (and then
  a \<open>summary\<close>); what is falsy, the empty string above all, is dropped at the end.
\<close>

fun extract_key_insights :: "stage_result \<Rightarrow> exn + pyval list" where
  "extract_key_insights (AgentSuccess summary raw_result) =
     (case listed (raw_insights raw_result) of
        Inl e \<Rightarrow> Inl e
      | Inr from_insights \<Rightarrow>
          (case listed (raw_recommendations raw_result) of
             Inl e \<Rightarrow> Inl e
           | Inr from_recommendations \<Rightarrow>
               Inr (filter truthy
                      (from_insights @ from_recommendations @ [VStr summary]))))"
| "extract_key_insights other = Inr []"

text \<open>The loop of \<open>_cross_validate_results\<close> that fills the dict \<open>insights\<close>.\<close>

fun collect_insights ::
    "stages \<Rightarrow> (ustr \<times> pyval list) list \<Rightarrow> exn + (ustr \<times> pyval list) list" where
  "collect_insights [] insights = Inr insights"
| "collect_insights ((stage_name, stage_result) # rest) insights =
     (if success stage_result
      then (case extract_key_insights stage_result of
              Inl e \<Rightarrow> Inl e
            | Inr found \<Rightarrow> collect_insights rest (AList.update stage_name found insights))
      else collect_insights rest insights)"

definition calculate_consistency_score :: "(ustr \<times> pyval list) list \<Rightarrow> rat" where
  "calculate_consistency_score insights =
     (if length (concat (map snd insights)) < 2 then 1 else 8 / 10)"

definition cross_validate_results :: "stages \<Rightarrow> exn + stage_result" where
  "cross_validate_results stages =
     (case collect_insights stages [] of
        Inl e \<Rightarrow> Inl e
      | Inr insights \<Rightarrow>
          Inr (Validation (if 2 \<le> length insights then calculate_consistency_score insights else 0)
                 [] [] []))"

text \<open>The loop of \<open>_create_strategic_synthesis\<close> that fills \<open>all_insights\<close>.\<close>

fun all_insights :: "stages \<Rightarrow> exn + pyval list" where
  "all_insights [] = Inr []"
| "all_insights ((stage_name, stage_result) # rest) =
     (if success stage_result
      then (case extract_key_insights stage_result of
              Inl e \<Rightarrow> Inl e
            | Inr found \<Rightarrow>
                (case all_insights rest of Inl e \<Rightarrow> Inl e | Inr others \<Rightarrow> Inr (found @ others)))
      else all_insights rest)"

definition create_strategic_synthesis :: "stages \<Rightarrow> ustr \<Rightarrow> exn + stage_result" where
  "create_strategic_synthesis stages query =
     (case all_insights stages of
        Inl e \<Rightarrow> Inl e
      | Inr insights \<Rightarrow>
          Inr (Synthesis
                 (ascii ''An'' @ [225] @ ascii ''lisis estrat'' @ [233] @ ascii ''gico completo para: '' @ query)
                 (take 5 insights) [] [] []))"

text \<open>The placeholder stages ignore their arguments.\<close>

definition perform_competitive_analysis :: "stages \<Rightarrow> ustr \<Rightarrow> stage_result" where
  "perform_competitive_analysis stages query =
     Placeholder ''analysis'' (ascii ''Competitive analysis placeholder'')"

definition create_implementation_plan :: "stages \<Rightarrow> ustr \<Rightarrow> stage_result" where
  "create_implementation_plan stages query =
     Placeholder ''plan'' (ascii ''Implementation plan placeholder'')"

definition perform_predictive_modeling :: "stages \<Rightarrow> request_context \<Rightarrow> stage_result" where
  "perform_predictive_modeling stages context =
     Placeholder ''model'' (ascii ''Predictive model placeholder'')"

definition create_scenario_planning :: "stages \<Rightarrow> ustr \<Rightarrow> stage_result" where
  "create_scenario_planning stages query =
     Placeholder ''scenarios'' (ascii ''Scenario planning placeholder'')"

definition assess_holiday_impact :: "stages \<Rightarrow> request_context \<Rightarrow> stage_result" where
  "assess_holiday_impact stages context =
     Placeholder ''impact'' (ascii ''Holiday impact assessment placeholder'')"

definition create_holiday_strategy :: "stages \<Rightarrow> ustr \<Rightarrow> stage_result" where
  "create_holiday_strategy stages query =
     Placeholder ''strategy'' (ascii ''Holiday strategy placeholder'')"

definition optimize_seasonal_patterns :: "stages \<Rightarrow> request_context \<Rightarrow> stage_result" where
  "optimize_seasonal_patterns stages context =
     Placeholder ''optimization'' (ascii ''Seasonal optimization placeholder'')"

definition create_year_round_strategy :: "stages \<Rightarrow> ustr \<Rightarrow> stage_result" where
  "create_year_round_strategy stages query =
     Placeholder ''strategy'' (ascii ''Year-round strategy placeholder'')"

section \<open>Final synthesis, recommendations and next steps\<close>

text \<open>The lines one stage adds to \<open>synthesis_parts\<close>.\<close>

fun stage_section :: "ustr \<times> stage_result \<Rightarrow> ustr list" where
  "stage_section (stage_name, AgentSuccess summary raw_result) =
     [ascii ''### '' @ [128269] @ ascii '' '' @ title (replace_underscore stage_name), [], summary, []]"
| "stage_section (stage_name, Placeholder key text) =
     [ascii ''### '' @ [128269] @ ascii '' '' @ title (replace_underscore stage_name), [], []]"
| "stage_section (stage_name, other) = []"

definition generate_final_synthesis :: "stages \<Rightarrow> workflow_template \<Rightarrow> ustr" where
  "generate_final_synthesis stages workflow =
     join [10]
       ([ascii ''## '' @ [127919] @ ascii '' '' @ wf_name workflow, [],
         ascii ''### '' @ [128202] @ ascii '' Resumen Ejecutivo'', []]
        @ concat (map stage_section stages))"

record recommendation =
  priority :: pyval
  description :: pyval
  source :: ustr

text \<open>The inner loop over \<open>raw_result['recommendations']\<close>, for one stage.\<close>

fun stage_recommendations :: "ustr \<Rightarrow> item list \<Rightarrow> exn + recommendation list" where
  "stage_recommendations stage_name [] = Inr []"
| "stage_recommendations stage_name (StrItem s # recs) = Inl AttributeError"
| "stage_recommendations stage_name (DictItem d # recs) =
     (case stage_recommendations stage_name recs of
        Inl e \<Rightarrow> Inl e
      | Inr others \<Rightarrow>
          Inr (\<lparr>priority = (case map_of d ''priority'' of
                             Some v \<Rightarrow> v
                           | None \<Rightarrow> VStr (ascii ''medium'')),
                description = (case map_of d ''description'' of Some v \<Rightarrow> v | None \<Rightarrow> VStr []),
                source = stage_name\<rparr> # others))"

text \<open>The outer loop of \<open>_generate_prioritized_recommendations\<close>, before the sort.\<close>

fun extract_recommendations :: "stages \<Rightarrow> exn + recommendation list" where
  "extract_recommendations [] = Inr []"
| "extract_recommendations ((stage_name, AgentSuccess summary raw_result) # rest) =
     (case (case raw_recommendations raw_result of
              None \<Rightarrow> Inr []
            | Some recs \<Rightarrow> stage_recommendations stage_name recs) of
        Inl e \<Rightarrow> Inl e
      | Inr found \<Rightarrow>
          (case extract_recommendations rest of
             Inl e \<Rightarrow> Inl e
           | Inr others \<Rightarrow> Inr (found @ others)))"
| "extract_recommendations ((stage_name, other) # rest) = extract_recommendations rest"

definition priority_order :: "(ustr \<times> int) list" where
  "priority_order = [(ascii ''high'', 3), (ascii ''medium'', 2), (ascii ''low'', 1)]"

text \<open>
  The sort key \<open>priority_order.get(x['priority'], 2)\<close>. The lookup hashes the priority
  first, which raises \<open>TypeError\<close> for an unhashable value. The keys of \<open>priority_order\<close>
  are strings, so a hashable value that is not a string is not found.
\<close>

definition priority_key :: "recommendation \<Rightarrow> exn + int" where
  "priority_key x =
     (if hashable (priority x)
      then Inr (case priority x of
                  VStr p \<Rightarrow> (case map_of priority_order p of Some n \<Rightarrow> n | None \<Rightarrow> 2)
                | other \<Rightarrow> 2)
      else Inl TypeError)"

text \<open>
  \<open>list.sort(key=key, reverse=True)\<close>. The key of every element is computed first, in
  the order of the list, and an exception of the key function leaves the sort. Then the
  list is reversed, sorted by a stable ascending sort on the keys, and reversed again,
  so that equal keys keep their order.
\<close>

fun keyed :: "('a \<Rightarrow> exn + int) \<Rightarrow> 'a list \<Rightarrow> exn + (int \<times> 'a) list" where
  "keyed key [] = Inr []"
| "keyed key (x # xs) =
     (case key x of
        Inl e \<Rightarrow> Inl e
      | Inr k \<Rightarrow> (case keyed key xs of Inl e \<Rightarrow> Inl e | Inr kxs \<Rightarrow> Inr ((k, x) # kxs)))"

definition sort_reverse :: "('a \<Rightarrow> exn + int) \<Rightarrow> 'a list \<Rightarrow> exn + 'a list" where
  "sort_reverse key xs =
     (case keyed key xs of
        Inl e \<Rightarrow> Inl e
      | Inr kxs \<Rightarrow> Inr (map snd (rev (sort_key fst (rev kxs)))))"

definition generate_prioritized_recommendations :: "stages \<Rightarrow> exn + recommendation list" where
  "generate_prioritized_recommendations stages =
     (case extract_recommendations stages of
        Inl e \<Rightarrow> Inl e
      | Inr recommendations \<Rightarrow> sort_reverse priority_key recommendations)"

definition generate_next_steps :: "stages \<Rightarrow> ustr \<Rightarrow> ustr list" where
  "generate_next_steps stages query =
     [ascii ''Revisar y validar los hallazgos con datos adicionales'',
      ascii ''Implementar las recomendaciones de alta prioridad'',
      ascii ''Monitorear los indicadores de '' @ [233] @ ascii ''xito definidos'',
      ascii ''Programar seguimiento en 30 d'' @ [237] @ ascii ''as'']"

section \<open>The executor\<close>

text \<open>
  One turn of the loop over \<open>workflow['workflow']\<close>: the chain of \<open>if\<close>/\<open>elif\<close>, storing
  the stage's result under its name. A dict keeps a key where it was first inserted. A
  name that no branch knows is skipped. (\<open>_execute_agent_stage\<close> is only called on the
  three names for which it returns a dict; a stored \<open>None\<close> would make the next \<open>.get\<close>
  on it raise.)
\<close>

definition run_stage :: "ustr \<Rightarrow> ustr \<Rightarrow> request_context \<Rightarrow> agents \<Rightarrow> stages \<Rightarrow> exn + stages" where
  "run_stage stage query context agents stages =
     (if stage \<in> set [ascii ''data_analysis'', ascii ''research'', ascii ''business_advisor'']
      then (case execute_agent_stage stage query context agents of
              Some result \<Rightarrow> Inr (AList.update stage result stages)
            | None \<Rightarrow> Inl AttributeError)
      else if stage = ascii ''cross_validation''
      then (case cross_validate_results stages of
              Inl e \<Rightarrow> Inl e
            | Inr result \<Rightarrow> Inr (AList.update stage result stages))
      else if stage = ascii ''strategic_synthesis''
      then (case create_strategic_synthesis stages query of
              Inl e \<Rightarrow> Inl e
            | Inr result \<Rightarrow> Inr (AList.update stage result stages))
      else if stage = ascii ''competitive_analysis''
      then Inr (AList.update stage (perform_competitive_analysis stages query) stages)
      else if stage = ascii ''implementation_plan''
      then Inr (AList.update stage (create_implementation_plan stages query) stages)
      else if stage = ascii ''predictive_modeling''
      then Inr (AList.update stage (perform_predictive_modeling stages context) stages)
      else if stage = ascii ''scenario_planning''
      then Inr (AList.update stage (create_scenario_planning stages query) stages)
      else if stage = ascii ''impact_assessment''
      then Inr (AList.update stage (assess_holiday_impact stages context) stages)
      else if stage = ascii ''holiday_strategy''
      then Inr (AList.update stage (create_holiday_strategy stages query) stages)
      else if stage = ascii ''seasonal_optimization''
      then Inr (AList.update stage (optimize_seasonal_patterns stages context) stages)
      else if stage = ascii ''year_round_strategy''
      then Inr (AList.update stage (create_year_round_strategy stages query) stages)
      else Inr stages)"

fun run_stages :: "ustr list \<Rightarrow> ustr \<Rightarrow> request_context \<Rightarrow> agents \<Rightarrow> stages \<Rightarrow> exn + stages" where
  "run_stages [] query context agents stages = Inr stages"
| "run_stages (stage # rest) query context agents stages =
     (case run_stage stage query context agents stages of
        Inl e \<Rightarrow> Inl e
      | Inr stages' \<Rightarrow> run_stages rest query context agents stages')"

text \<open>
  The dict a run returns. \<open>now\<close> is the text of \<open>datetime.now().isoformat()\<close>. The
  debugging \<open>print\<close>s are left out.
\<close>

datatype rval =
    RStr ustr
  | RStages stages
  | REmptyDict
  | RRecommendations "recommendation list"
  | RList "ustr list"

type_synonym run_result = "(string \<times> rval) list"

definition execute_enhanced_workflow ::
    "workflow_template \<Rightarrow> ustr \<Rightarrow> request_context \<Rightarrow> agents \<Rightarrow> ustr \<Rightarrow> exn + run_result" where
  "execute_enhanced_workflow workflow query context agents now =
     (let results = [(''workflow_name'', RStr (wf_name workflow)),
                     (''query'', RStr query),
                     (''timestamp'', RStr now),
                     (''stages'', RStages []),
                     (''synthesis'', REmptyDict),
                     (''recommendations'', RRecommendations []),
                     (''next_steps'', RList [])]
      in case run_stages (wf_workflow workflow) query context agents [] of
           Inl e \<Rightarrow> Inl e
         | Inr stages \<Rightarrow>
             (let results = AList.update ''stages'' (RStages stages) results;
                  results = AList.update ''synthesis''
                              (RStr (generate_final_synthesis stages workflow)) results
              in case generate_prioritized_recommendations stages of
                   Inl e \<Rightarrow> Inl e
                 | Inr recommendations \<Rightarrow>
                     Inr (AList.update ''next_steps'' (RList (generate_next_steps stages query))
                            (AList.update ''recommendations'' (RRecommendations recommendations)
                               results))))"

section \<open>Sample providers and stage results\<close>

text \<open>
  Concrete inputs at which the theorems below are evaluated. \<open>returning\<close> is a provider
  whose call returns \<open>result\<close> and whose summary is \<open>summary\<close>; \<open>raising\<close> is one whose
  call raises an exception with the given message.
\<close>

definition returning :: "ustr \<Rightarrow> raw_result \<Rightarrow> agent" where
  "returning summary result =
     \<lparr>invoke = (\<lambda>query context. Inr result), get_summary = (\<lambda>result. Inr summary)\<rparr>"

definition raising :: "ustr \<Rightarrow> agent" where
  "raising message =
     \<lparr>invoke = (\<lambda>query context. Inl message), get_summary = (\<lambda>result. Inr [])\<rparr>"

definition no_lists :: raw_result where
  "no_lists = \<lparr>raw_insights = None, raw_recommendations = None\<rparr>"

text \<open>
  The data-analysis provider succeeds with its insights as a list of strings, the
  research provider raises, the business advisor succeeds.
\<close>

definition research_fails :: agents where
  "research_fails = map_of
     [(ascii ''data_analysis'',
       returning (ascii ''Resumen de datos'')
         \<lparr>raw_insights = Some [StrItem (ascii ''Total de pasajeros: 1000'')],
          raw_recommendations = None\<rparr>),
      (ascii ''research'', raising (ascii ''boom'')),
      (ascii ''business_advisor'', returning (ascii ''Resumen de negocio'') no_lists)]"

text \<open>All three providers succeed and report nothing but a summary.\<close>

definition all_succeed :: agents where
  "all_succeed = map_of
     [(ascii ''data_analysis'', returning (ascii ''Resumen de datos'') no_lists),
      (ascii ''research'', returning (ascii ''Resumen de investigacion'') no_lists),
      (ascii ''business_advisor'', returning (ascii ''Resumen de negocio'') no_lists)]"


text \<open>A recommendation dict \<open>{'priority': p, 'description': d}\<close>.\<close>

definition rec_item :: "ustr \<Rightarrow> ustr \<Rightarrow> item" where
  "rec_item p d = DictItem [(''priority'', VStr p), (''description'', VStr d)]"

text \<open>
  Two successful stages whose recommendations are, in stage order, low \<open>x\<close>, high \<open>y\<close>,
  medium \<open>z\<close>, high \<open>w\<close>.
\<close>

definition four_recommendations :: stages where
  "four_recommendations =
     [(ascii ''research'',
       AgentSuccess (ascii ''r'')
         \<lparr>raw_insights = None,
          raw_recommendations = Some [rec_item (ascii ''low'') (ascii ''x''),
                                      rec_item (ascii ''high'') (ascii ''y'')]\<rparr>),
      (ascii ''business_advisor'',
       AgentSuccess (ascii ''b'')
         \<lparr>raw_insights = None,
          raw_recommendations = Some [rec_item (ascii ''medium'') (ascii ''z''),
                                      rec_item (ascii ''high'') (ascii ''w'')]\<rparr>)]"

text \<open>Two successful stages that recommend the same text.\<close>

definition same_text_twice :: stages where
  "same_text_twice =
     [(ascii ''research'',
       AgentSuccess (ascii ''r'')
         \<lparr>raw_insights = None,
          raw_recommendations = Some [rec_item (ascii ''high'') (ascii ''Revisar precios'')]\<rparr>),
      (ascii ''business_advisor'',
       AgentSuccess (ascii ''b'')
         \<lparr>raw_insights = None,
          raw_recommendations = Some [rec_item (ascii ''high'') (ascii ''Revisar precios'')]\<rparr>)]"

text \<open>Recommendations whose priorities are not among the three the sort key knows.\<close>

definition odd_priorities :: stages where
  "odd_priorities =
     [(ascii ''research'',
       AgentSuccess (ascii ''r'')
         \<lparr>raw_insights = None,
          raw_recommendations = Some [rec_item (ascii ''low'') (ascii ''x''),
                                      rec_item (ascii ''High'') (ascii ''y''),
                                      rec_item (ascii ''urgent'') (ascii ''z''),
                                      rec_item (ascii ''high'') (ascii ''w'')]\<rparr>)]"

text \<open>
  A successful stage with the recommendations low \<open>x\<close>, then \<open>y\<close> with the list
  \<open>['high']\<close> as its priority, then high \<open>w\<close>.
\<close>

definition list_priority :: stages where
  "list_priority =
     [(ascii ''research'',
       AgentSuccess (ascii ''r'')
         \<lparr>raw_insights = None,
          raw_recommendations =
            Some [rec_item (ascii ''low'') (ascii ''x''),
                  DictItem [(''priority'', VList [VStr (ascii ''high'')]),
                            (''description'', VStr (ascii ''y''))],
                  rec_item (ascii ''high'') (ascii ''w'')]\<rparr>)]"

section \<open>Notions used to state the results\<close>

text \<open>The stage names for which the executor's loop has a branch.\<close>

definition handled_stages :: "ustr list" where
  "handled_stages =
     [ascii ''data_analysis'', ascii ''research'', ascii ''business_advisor'',
      ascii ''cross_validation'', ascii ''strategic_synthesis'',
      ascii ''competitive_analysis'', ascii ''implementation_plan'',
      ascii ''predictive_modeling'', ascii ''scenario_planning'',
      ascii ''impact_assessment'', ascii ''holiday_strategy'',
      ascii ''seasonal_optimization'', ascii ''year_round_strategy'']"

text \<open>
  A raw result whose insights and recommendations are all dicts, the priority of each
  recommendation being hashable where one is given; a stage dict whose successful agent
  stages hold such raw results; and providers that return only such raw results.
\<close>

fun is_dict :: "item \<Rightarrow> bool" where
  "is_dict (DictItem d) = True"
| "is_dict (StrItem s) = False"

fun hashable_priority :: "item \<Rightarrow> bool" where
  "hashable_priority (DictItem d) =
     (case map_of d ''priority'' of Some v \<Rightarrow> hashable v | None \<Rightarrow> True)"
| "hashable_priority (StrItem s) = True"

definition only_dicts :: "raw_result \<Rightarrow> bool" where
  "only_dicts result =
     (list_all is_dict (case raw_insights result of None \<Rightarrow> [] | Some xs \<Rightarrow> xs)
      \<and> list_all is_dict (case raw_recommendations result of None \<Rightarrow> [] | Some xs \<Rightarrow> xs)
      \<and> list_all hashable_priority
            (case raw_recommendations result of None \<Rightarrow> [] | Some xs \<Rightarrow> xs))"

fun dict_stage :: "stage_result \<Rightarrow> bool" where
  "dict_stage (AgentSuccess summary result) = only_dicts result"
| "dict_stage other = True"

definition dict_stages :: "stages \<Rightarrow> bool" where
  "dict_stages stages = list_all (\<lambda>(stage_name, stage_result). dict_stage stage_result) stages"

definition dict_providers :: "agents \<Rightarrow> bool" where
  "dict_providers agents =
     (\<forall>stage agent query context result.
        agents stage = Some agent \<longrightarrow> invoke agent query context = Inr result
        \<longrightarrow> only_dicts result)"

text \<open>
  A recommendation read as the sort ranks it: a priority that can be hashed and is none
  of \<open>high\<close>, \<open>medium\<close>, \<open>low\<close> is replaced by \<open>medium\<close>.
\<close>

definition as_medium :: "recommendation \<Rightarrow> recommendation" where
  "as_medium r =
     (if hashable (priority r)
         \<and> priority r \<notin> {VStr (ascii ''high''), VStr (ascii ''medium''), VStr (ascii ''low'')}
      then r\<lparr>priority := VStr (ascii ''medium'')\<rparr>
      else r)"

text \<open>
  Three runs of the market template on the query \<open>hola\<close> without context: one in which
  the research provider raises, one in which every provider succeeds, one in which every
  provider raises; and a run of the strategic template in which the research provider
  raises.
\<close>

definition market_run_research_fails :: "exn + run_result" where
  "market_run_research_fails =
     execute_enhanced_workflow market_analysis (ascii ''hola'') None research_fails
       (ascii ''2025-01-01T00:00:00'')"

definition market_run_all_succeed :: "exn + run_result" where
  "market_run_all_succeed =
     execute_enhanced_workflow market_analysis (ascii ''hola'') None all_succeed
       (ascii ''2025-01-01T00:00:00'')"


definition strategic_run_research_fails :: "exn + run_result" where
  "strategic_run_research_fails =
     execute_enhanced_workflow strategic_analysis (ascii ''hola'') None research_fails
       (ascii ''2025-01-01T00:00:00'')"

section \<open>Auxiliary facts\<close>

lemma analysis_has_no_query: "map_of (analyze_query query context) ''query'' = None"
  by (simp add: analyze_query_def Let_def)

lemma get_workflow_for_empty_query: "get_workflow_for_query [] context = strategic_analysis"
  by (simp add: get_workflow_for_query_def lower_def any_in_def ascii_def)

lemma select_workflow_always_strategic:
  "select_workflow (analyze_query query context) = Inr strategic_analysis"
  by (simp add: select_workflow_def analysis_has_no_query get_workflow_for_empty_query)

lemma get_workflow_in_registry:
  "get_workflow_for_query query context \<in> snd ` set workflow_templates"
  by (simp add: get_workflow_for_query_def workflow_templates_def Let_def)

text \<open>The sort: what \<open>keyed\<close> returns, and when.\<close>

lemma keyed_Inr:
  "keyed key xs = Inr kxs
   \<Longrightarrow> map snd kxs = xs \<and> map (\<lambda>(k, x). key x) kxs = map (\<lambda>(k, x). Inr k) kxs"
proof (induction xs arbitrary: kxs)
  case Nil
  then show ?case by simp
next
  case (Cons x xs)
  then show ?case by (auto split: sum.splits)
qed

lemma keyed_returns:
  "list_all (\<lambda>x. \<exists>k. key x = Inr k) xs \<Longrightarrow> \<exists>kxs. keyed key xs = Inr kxs"
proof (induction xs)
  case Nil
  then show ?case by simp
next
  case (Cons x xs)
  then show ?case by auto
qed

lemma keyed_map:
  "(\<And>x. key (g x) = key x)
   \<Longrightarrow> keyed key (map g xs)
       = (case keyed key xs of Inl e \<Rightarrow> Inl e | Inr kxs \<Rightarrow> Inr (map (\<lambda>(k, x). (k, g x)) kxs))"
  by (induction xs) (auto split: sum.splits)

lemma sort_reverse_Inr:
  "sort_reverse key xs = Inr ys
   \<longleftrightarrow> (\<exists>kxs. keyed key xs = Inr kxs \<and> ys = map snd (rev (sort_key fst (rev kxs))))"
  by (auto simp: sort_reverse_def split: sum.splits)

lemma key_of_sorted_pairs:
  assumes "keyed key xs = Inr kxs"
  shows "map (\<lambda>(k, x). key x) (rev (sort_key fst (rev kxs)))
         = map (\<lambda>(k, x). Inr k) (rev (sort_key fst (rev kxs)))"
proof -
  from keyed_Inr [OF assms] have "\<forall>p \<in> set kxs. (case p of (k, x) \<Rightarrow> key x) = (case p of (k, x) \<Rightarrow> Inr k)"
    by (metis (mono_tags, lifting) map_eq_conv)
  then show ?thesis by simp
qed

lemma sort_reverse_sorted:
  assumes "sort_reverse key xs = Inr ys"
  shows "\<exists>keys. map key ys = map Inr keys \<and> sorted_wrt (\<lambda>a b. b \<le> a) keys"
proof -
  from assms obtain kxs where
    kxs: "keyed key xs = Inr kxs" and ys: "ys = map snd (rev (sort_key fst (rev kxs)))"
    by (auto simp: sort_reverse_Inr)
  let ?zs = "rev (sort_key fst (rev kxs))"
  have "sorted (map fst (sort_key fst (rev kxs)))" by (rule sorted_sort_key)
  then have "sorted (rev (map fst ?zs))" by (simp add: rev_map)
  then have descending: "sorted_wrt (\<lambda>a b. b \<le> a) (map fst ?zs)"
    by (simp add: sorted_wrt_rev)
  have "map key ys = map (\<lambda>(k, x). key x) ?zs"
    by (simp add: ys case_prod_unfold)
  also have "\<dots> = map (\<lambda>(k, x). Inr k) ?zs" by (rule key_of_sorted_pairs [OF kxs])
  also have "\<dots> = map Inr (map fst ?zs)" by (simp add: case_prod_unfold)
  finally show ?thesis using descending by blast
qed

lemma sort_reverse_stable:
  assumes "sort_reverse key xs = Inr ys"
  shows "filter (\<lambda>x. key x = Inr k) ys = filter (\<lambda>x. key x = Inr k) xs"
proof -
  from assms obtain kxs where
    kxs: "keyed key xs = Inr kxs" and ys: "ys = map snd (rev (sort_key fst (rev kxs)))"
    by (auto simp: sort_reverse_Inr)
  from keyed_Inr [OF kxs] have xs: "xs = map snd kxs"
    and keys: "\<forall>p \<in> set kxs. key (snd p) = Inr (fst p)"
    by (auto simp: case_prod_unfold)
  let ?zs = "rev (sort_key fst (rev kxs))"
  have "filter (\<lambda>p. fst p = k) (sort_key fst (rev kxs)) = filter (\<lambda>p. fst p = k) (rev kxs)"
    by (rule sort_key_stable)
  then have same: "filter (\<lambda>p. fst p = k) ?zs = filter (\<lambda>p. fst p = k) kxs"
    by (simp add: rev_filter [symmetric])
  have "filter (\<lambda>x. key x = Inr k) ys = map snd (filter (\<lambda>p. key (snd p) = Inr k) ?zs)"
    by (simp add: ys filter_map comp_def)
  also have "filter (\<lambda>p. key (snd p) = Inr k) ?zs = filter (\<lambda>p. fst p = k) ?zs"
    using keys by (intro filter_cong) auto
  also have "map snd (filter (\<lambda>p. fst p = k) ?zs) = map snd (filter (\<lambda>p. fst p = k) kxs)"
    by (simp only: same)
  also have "filter (\<lambda>p. fst p = k) kxs = filter (\<lambda>p. key (snd p) = Inr k) kxs"
    using keys by (intro filter_cong) auto
  also have "map snd (filter (\<lambda>p. key (snd p) = Inr k) kxs) = filter (\<lambda>x. key x = Inr k) xs"
    by (simp add: xs filter_map comp_def)
  finally show ?thesis .
qed

lemma mset_sort_reverse:
  assumes "sort_reverse key xs = Inr ys"
  shows "mset ys = mset xs"
proof -
  from assms obtain kxs where
    kxs: "keyed key xs = Inr kxs" and ys: "ys = map snd (rev (sort_key fst (rev kxs)))"
    by (auto simp: sort_reverse_Inr)
  from keyed_Inr [OF kxs] have "xs = map snd kxs" by simp
  then show ?thesis by (simp add: ys)
qed

lemma sort_reverse_returns:
  "list_all (\<lambda>x. \<exists>k. key x = Inr k) xs \<Longrightarrow> \<exists>ys. sort_reverse key xs = Inr ys"
  using keyed_returns [of key xs] by (auto simp: sort_reverse_def)

lemma insort_key_map:
  "insort_key key (g x) (map g ys) = map g (insort_key (\<lambda>y. key (g y)) x ys)"
  by (induction ys) auto

lemma sort_key_map: "sort_key key (map g xs) = map g (sort_key (\<lambda>y. key (g y)) xs)"
  by (induction xs) (simp_all add: insort_key_map)

lemma sort_reverse_map:
  assumes "\<And>x. key (g x) = key x"
  shows "sort_reverse key (map g xs)
         = (case sort_reverse key xs of Inl e \<Rightarrow> Inl e | Inr ys \<Rightarrow> Inr (map g ys))"
proof -
  have keyed_after:
    "keyed key (map g xs)
       = (case keyed key xs of Inl e \<Rightarrow> Inl e | Inr kxs \<Rightarrow> Inr (map (\<lambda>(k, x). (k, g x)) kxs))"
    using assms by (rule keyed_map)
  show ?thesis
  proof (cases "keyed key xs")
    case (Inl e)
    then show ?thesis by (simp add: sort_reverse_def keyed_after)
  next
    case (Inr kxs)
    let ?h = "\<lambda>p. (fst p, g (snd p))"
    have "sort_key fst (map ?h (rev kxs)) = map ?h (sort_key (\<lambda>p. fst (?h p)) (rev kxs))"
      by (rule sort_key_map)
    then have "sort_key fst (rev (map ?h kxs)) = map ?h (sort_key fst (rev kxs))"
      by (simp add: rev_map)
    then show ?thesis
      by (simp add: sort_reverse_def keyed_after Inr rev_map case_prod_unfold comp_def)
  qed
qed

text \<open>The sort key.\<close>

lemma priority_key_hashable:
  "(\<exists>k. priority_key x = Inr k) \<longleftrightarrow> hashable (priority x)"
  by (simp add: priority_key_def)

lemma priority_key_unhashable:
  "\<not> hashable (priority x) \<Longrightarrow> priority_key x = Inl TypeError"
  by (simp add: priority_key_def)

lemma priority_key_default:
  "hashable (priority x)
   \<Longrightarrow> priority x \<notin> {VStr (ascii ''high''), VStr (ascii ''medium''), VStr (ascii ''low'')}
   \<Longrightarrow> priority_key x = Inr 2"
  by (cases "priority x") (auto simp: priority_key_def priority_order_def)

lemma priority_key_medium: "priority_key (x\<lparr>priority := VStr (ascii ''medium'')\<rparr>) = Inr 2"
  by (simp add: priority_key_def priority_order_def ascii_def)

lemma sort_raises_TypeError:
  "\<not> list_all (\<lambda>x. hashable (priority x)) recs \<Longrightarrow> sort_reverse priority_key recs = Inl TypeError"
proof -
  assume "\<not> list_all (\<lambda>x. hashable (priority x)) recs"
  then have "keyed priority_key recs = Inl TypeError"
  proof (induction recs)
    case Nil
    then show ?case by simp
  next
    case (Cons x xs)
    show ?case
    proof (cases "hashable (priority x)")
      case True
      with Cons show ?thesis by (auto simp: priority_key_def split: sum.splits)
    next
      case False
      then show ?thesis by (simp add: priority_key_unhashable)
    qed
  qed
  then show ?thesis by (simp add: sort_reverse_def)
qed

lemma execute_enhanced_workflow_result:
  assumes "execute_enhanced_workflow workflow query context agents now = Inr results"
  shows "\<exists>stages recs.
           run_stages (wf_workflow workflow) query context agents [] = Inr stages
         \<and> generate_prioritized_recommendations stages = Inr recs
         \<and> results = [(''workflow_name'', RStr (wf_name workflow)),
                      (''query'', RStr query),
                      (''timestamp'', RStr now),
                      (''stages'', RStages stages),
                      (''synthesis'', RStr (generate_final_synthesis stages workflow)),
                      (''recommendations'', RRecommendations recs),
                      (''next_steps'', RList (generate_next_steps stages query))]"
  using assms
  by (auto simp: execute_enhanced_workflow_def Let_def split: sum.splits)

lemma generate_prioritized_recommendations_Inr:
  "generate_prioritized_recommendations stages = Inr recs
   \<longleftrightarrow> (\<exists>extracted. extract_recommendations stages = Inr extracted
          \<and> sort_reverse priority_key extracted = Inr recs)"
  by (auto simp: generate_prioritized_recommendations_def split: sum.splits)

lemma four_recommendations_sorted:
  "generate_prioritized_recommendations four_recommendations
     = Inr [\<lparr>priority = VStr (ascii ''high''), description = VStr (ascii ''y''),
             source = ascii ''research''\<rparr>,
            \<lparr>priority = VStr (ascii ''high''), description = VStr (ascii ''w''),
             source = ascii ''business_advisor''\<rparr>,
            \<lparr>priority = VStr (ascii ''medium''), description = VStr (ascii ''z''),
             source = ascii ''business_advisor''\<rparr>,
            \<lparr>priority = VStr (ascii ''low''), description = VStr (ascii ''x''),
             source = ascii ''research''\<rparr>]"
  by (simp add: generate_prioritized_recommendations_def four_recommendations_def rec_item_def
        sort_reverse_def priority_key_def priority_order_def ascii_def)

section \<open>Query analysis\<close>

text \<open>
  Claim C7. For every query and context, the list stored under \<open>required_capabilities\<close>
  by \<open>_analyze_query\<close> is not empty, and when no keyword of any capability occurs in
  the lower-cased query it is exactly \<open>['chat']\<close>.
\<close>

theorem required_capabilities_nonempty:
  "map_of (analyze_query query context) ''required_capabilities''
     = Some (AList (required_capabilities (lower query)))
   \<and> required_capabilities (lower query) \<noteq> []
   \<and> (\<not> list_ex (\<lambda>(agent_id, capabilities). any_in (cap_keywords capabilities) (lower query))
            agent_capabilities
        \<longrightarrow> required_capabilities (lower query) = [ascii ''chat''])"
  by (auto simp: analyze_query_def Let_def required_capabilities_def matched_capabilities_def
        filter_empty_conv list_ex_iff)

theorem required_capabilities_nonempty_witness:
  "\<not> list_ex (\<lambda>(agent_id, capabilities). any_in (cap_keywords capabilities) (lower (ascii ''hola'')))
          agent_capabilities
   \<and> map_of (analyze_query (ascii ''hola'') None) ''required_capabilities''
       = Some (AList [ascii ''chat''])"
proof -
  have no_match:
    "\<not> list_ex (\<lambda>(agent_id, capabilities). any_in (cap_keywords capabilities) (lower (ascii ''hola'')))
          agent_capabilities"
    by (simp add: agent_capabilities_def any_in_def lower_def lower_cp_def ascii_def)
  from required_capabilities_nonempty [of "ascii ''hola''" None] no_match
  show ?thesis by simp
qed

text \<open>
  The analysis reads its inputs only through the lower-cased query and the data-context
  value; nothing else enters the result.
\<close>

lemma analyze_query_depends_on:
  "lower query1 = lower query2 \<Longrightarrow> has_data_context context1 = has_data_context context2
   \<Longrightarrow> analyze_query query1 context1 = analyze_query query2 context2"
  by (simp add: analyze_query_def)

section \<open>Workflow selection\<close>

text \<open>
  Claim C3. The selector \<open>get_workflow_for_query\<close> tests its keyword lists in the fixed
  order strategic, market, predictive, holiday, seasonal and falls back to the strategic
  template. Through \<open>process_query\<close>, however, it never sees the query: the analysis
  result that \<open>_select_workflow\<close> reads the query from has no \<open>query\<close> entry, so the
  selector is run on the empty string. For the query \<open>mercado\<close> the selector applied to
  the text returns the market template, and the first two steps of \<open>process_query\<close>
  return the strategic one.
\<close>

theorem selection_ignores_query_text:
  "select_workflow (analyze_query (ascii ''mercado'') None) = Inr strategic_analysis
   \<and> get_workflow_for_query (ascii ''mercado'') (analyze_query (ascii ''mercado'') None)
       = market_analysis
   \<and> market_analysis \<noteq> strategic_analysis"
proof -
  have "get_workflow_for_query (ascii ''mercado'') (analyze_query (ascii ''mercado'') None)
          = market_analysis"
    by (simp add: get_workflow_for_query_def lower_def lower_cp_def any_in_def ascii_def)
  moreover have "market_analysis \<noteq> strategic_analysis"
    by (simp add: market_analysis_def strategic_analysis_def ascii_def)
  ultimately show ?thesis
    by (simp add: select_workflow_always_strategic)
qed

section \<open>Prioritised recommendations\<close>

text \<open>
  Claim C5. The list returned by \<open>_generate_prioritized_recommendations\<close>, which is the
  list a run stores under \<open>recommendations\<close>, is in descending order of priority (high
  before medium before low), and the recommendations of any one rank stand in the order
  in which they were extracted from the stages. Recommendations low \<open>x\<close>, high \<open>y\<close>,
  medium \<open>z\<close>, high \<open>w\<close>, extracted in that order, come out as \<open>y\<close>, \<open>w\<close>, \<open>z\<close>, \<open>x\<close>.
  Every recommendation of a returned list has a sort key, and the keys of the list
  descend; the keys of \<open>low\<close>, \<open>medium\<close> and \<open>high\<close> are 1, 2 and 3.
\<close>

theorem recommendations_sorted_by_priority:
  "(generate_prioritized_recommendations stages = Inr recs \<longrightarrow>
      (\<exists>keys. map priority_key recs = map Inr keys \<and> sorted_wrt (\<lambda>a b. b \<le> a) keys)
    \<and> (\<exists>extracted. extract_recommendations stages = Inr extracted
          \<and> (\<forall>k. filter (\<lambda>x. priority_key x = Inr k) recs
                  = filter (\<lambda>x. priority_key x = Inr k) extracted)))
   \<and> (execute_enhanced_workflow workflow query context agents now = Inr results \<longrightarrow>
        (\<exists>stages recs'. map_of results ''stages'' = Some (RStages stages)
           \<and> map_of results ''recommendations'' = Some (RRecommendations recs')
           \<and> generate_prioritized_recommendations stages = Inr recs'))
   \<and> priority_key (x\<lparr>priority := VStr (ascii ''low'')\<rparr>) = Inr 1
   \<and> priority_key (x\<lparr>priority := VStr (ascii ''medium'')\<rparr>) = Inr 2
   \<and> priority_key (x\<lparr>priority := VStr (ascii ''high'')\<rparr>) = Inr 3
   \<and> map description (projr (generate_prioritized_recommendations four_recommendations))
       = [VStr (ascii ''y''), VStr (ascii ''w''), VStr (ascii ''z''), VStr (ascii ''x'')]"
proof (intro conjI impI)
  assume sorted_list: "generate_prioritized_recommendations stages = Inr recs"
  then obtain extracted where
    extracted: "extract_recommendations stages = Inr extracted"
    and recs: "sort_reverse priority_key extracted = Inr recs"
    by (auto simp: generate_prioritized_recommendations_Inr)
  show "\<exists>keys. map priority_key recs = map Inr keys \<and> sorted_wrt (\<lambda>a b. b \<le> a) keys"
    using recs by (rule sort_reverse_sorted)
  show "\<exists>extracted. extract_recommendations stages = Inr extracted
          \<and> (\<forall>k. filter (\<lambda>x. priority_key x = Inr k) recs
                  = filter (\<lambda>x. priority_key x = Inr k) extracted)"
    using extracted sort_reverse_stable [OF recs] by simp
next
  assume "execute_enhanced_workflow workflow query context agents now = Inr results"
  from execute_enhanced_workflow_result [OF this]
  show "\<exists>stages recs'. map_of results ''stages'' = Some (RStages stages)
           \<and> map_of results ''recommendations'' = Some (RRecommendations recs')
           \<and> generate_prioritized_recommendations stages = Inr recs'"
    by auto
next
  show "priority_key (x\<lparr>priority := VStr (ascii ''low'')\<rparr>) = Inr 1"
    by (simp add: priority_key_def priority_order_def ascii_def)
  show "priority_key (x\<lparr>priority := VStr (ascii ''medium'')\<rparr>) = Inr 2"
    by (simp add: priority_key_def priority_order_def ascii_def)
  show "priority_key (x\<lparr>priority := VStr (ascii ''high'')\<rparr>) = Inr 3"
    by (simp add: priority_key_def priority_order_def ascii_def)
  show "map description (projr (generate_prioritized_recommendations four_recommendations))
       = [VStr (ascii ''y''), VStr (ascii ''w''), VStr (ascii ''z''), VStr (ascii ''x'')]"
    by (simp add: four_recommendations_sorted)
qed

theorem recommendations_sorted_by_priority_witness:
  "generate_prioritized_recommendations four_recommendations
     = Inr [\<lparr>priority = VStr (ascii ''high''), description = VStr (ascii ''y''),
             source = ascii ''research''\<rparr>,
            \<lparr>priority = VStr (ascii ''high''), description = VStr (ascii ''w''),
             source = ascii ''business_advisor''\<rparr>,
            \<lparr>priority = VStr (ascii ''medium''), description = VStr (ascii ''z''),
             source = ascii ''business_advisor''\<rparr>,
            \<lparr>priority = VStr (ascii ''low''), description = VStr (ascii ''x''),
             source = ascii ''research''\<rparr>]
   \<and> (\<exists>keys.
         map priority_key
           [\<lparr>priority = VStr (ascii ''high''), description = VStr (ascii ''y''),
             source = ascii ''research''\<rparr>,
            \<lparr>priority = VStr (ascii ''high''), description = VStr (ascii ''w''),
             source = ascii ''business_advisor''\<rparr>,
            \<lparr>priority = VStr (ascii ''medium''), description = VStr (ascii ''z''),
             source = ascii ''business_advisor''\<rparr>,
            \<lparr>priority = VStr (ascii ''low''), description = VStr (ascii ''x''),
             source = ascii ''research''\<rparr>]
         = map Inr keys
       \<and> sorted_wrt (\<lambda>a b. b \<le> a) keys)"
  using recommendations_sorted_by_priority [of four_recommendations] four_recommendations_sorted
  by blast

text \<open>
  Claim C6. The claim that exact-text duplicates are removed does not hold: two stages
  that recommend the same text both keep their entry.
\<close>

theorem duplicates_are_kept:
  "generate_prioritized_recommendations same_text_twice
     = Inr [\<lparr>priority = VStr (ascii ''high''), description = VStr (ascii ''Revisar precios''),
             source = ascii ''research''\<rparr>,
            \<lparr>priority = VStr (ascii ''high''), description = VStr (ascii ''Revisar precios''),
             source = ascii ''business_advisor''\<rparr>]"
  by (simp add: generate_prioritized_recommendations_def same_text_twice_def rec_item_def
        sort_reverse_def priority_key_def priority_order_def ascii_def)

text \<open>
  Claim C6, amended. The prioritised list holds every recommendation extracted from the
  successful stages exactly as often as it was extracted: the sort rearranges the list
  and removes nothing, duplicates included. This holds of every list the function
  returns, and it returns one whenever the extraction does and every extracted priority
  can be hashed (every string can).
\<close>

theorem recommendations_all_kept:
  "(generate_prioritized_recommendations stages = Inr recs \<longrightarrow>
      (\<exists>extracted. extract_recommendations stages = Inr extracted
         \<and> mset recs = mset extracted
         \<and> length recs = length extracted))
   \<and> (extract_recommendations stages = Inr extracted \<longrightarrow>
       list_all (\<lambda>x. hashable (priority x)) extracted \<longrightarrow>
         (\<exists>recs. generate_prioritized_recommendations stages = Inr recs
            \<and> mset recs = mset extracted
            \<and> length recs = length extracted))"
proof (intro conjI impI)
  assume "generate_prioritized_recommendations stages = Inr recs"
  then obtain found where
    found: "extract_recommendations stages = Inr found"
    and recs: "sort_reverse priority_key found = Inr recs"
    by (auto simp: generate_prioritized_recommendations_Inr)
  from mset_sort_reverse [OF recs] have "mset recs = mset found" .
  moreover from this have "length recs = length found" by (rule mset_eq_length)
  ultimately show "\<exists>extracted. extract_recommendations stages = Inr extracted
         \<and> mset recs = mset extracted
         \<and> length recs = length extracted"
    using found by simp
next
  assume extracted: "extract_recommendations stages = Inr extracted"
    and "list_all (\<lambda>x. hashable (priority x)) extracted"
  then have "list_all (\<lambda>x. \<exists>k. priority_key x = Inr k) extracted"
    by (simp add: priority_key_hashable)
  from sort_reverse_returns [OF this] obtain recs where
    recs: "sort_reverse priority_key extracted = Inr recs"
    by blast
  from mset_sort_reverse [OF recs] have "mset recs = mset extracted" .
  moreover from this have "length recs = length extracted" by (rule mset_eq_length)
  ultimately show "\<exists>recs. generate_prioritized_recommendations stages = Inr recs
            \<and> mset recs = mset extracted
            \<and> length recs = length extracted"
    using extracted recs by (simp add: generate_prioritized_recommendations_def)
qed

theorem recommendations_all_kept_witness:
  "extract_recommendations same_text_twice
     = Inr [\<lparr>priority = VStr (ascii ''high''), description = VStr (ascii ''Revisar precios''),
             source = ascii ''research''\<rparr>,
            \<lparr>priority = VStr (ascii ''high''), description = VStr (ascii ''Revisar precios''),
             source = ascii ''business_advisor''\<rparr>]
   \<and> length (projr (generate_prioritized_recommendations same_text_twice)) = 2"
proof -
  have extracted: "extract_recommendations same_text_twice
     = Inr [\<lparr>priority = VStr (ascii ''high''), description = VStr (ascii ''Revisar precios''),
             source = ascii ''research''\<rparr>,
            \<lparr>priority = VStr (ascii ''high''), description = VStr (ascii ''Revisar precios''),
             source = ascii ''business_advisor''\<rparr>]"
    by (simp add: same_text_twice_def rec_item_def)
  let ?found =
    "[\<lparr>priority = VStr (ascii ''high''), description = VStr (ascii ''Revisar precios''),
       source = ascii ''research''\<rparr>,
      \<lparr>priority = VStr (ascii ''high''), description = VStr (ascii ''Revisar precios''),
       source = ascii ''business_advisor''\<rparr>]"
  have "list_all (\<lambda>x. hashable (priority x)) ?found"
    by simp
  with recommendations_all_kept [where stages = same_text_twice and extracted = ?found]
    extracted
  obtain recs where
    "generate_prioritized_recommendations same_text_twice = Inr recs"
    "length recs = length ?found"
    by blast
  with extracted show ?thesis by simp
qed

text \<open>
  Claim C10, as stated, does not hold for every priority value: the sort key is looked
  up in a dict, and the lookup raises \<open>TypeError\<close> when the priority cannot be hashed.
  A stage reports the recommendations low \<open>x\<close>, then \<open>y\<close> with the list \<open>['high']\<close> as
  its priority, then high \<open>w\<close>; the extraction returns the three, the sort raises.
\<close>

theorem unhashable_priority_raises:
  "extract_recommendations list_priority
     = Inr [\<lparr>priority = VStr (ascii ''low''), description = VStr (ascii ''x''),
             source = ascii ''research''\<rparr>,
            \<lparr>priority = VList [VStr (ascii ''high'')], description = VStr (ascii ''y''),
             source = ascii ''research''\<rparr>,
            \<lparr>priority = VStr (ascii ''high''), description = VStr (ascii ''w''),
             source = ascii ''research''\<rparr>]
   \<and> generate_prioritized_recommendations list_priority = Inl TypeError"
  by (simp add: generate_prioritized_recommendations_def list_priority_def rec_item_def
        sort_reverse_def priority_key_def priority_order_def ascii_def)

text \<open>
  Claim C10, amended. A recommendation whose priority can be hashed and is none of the
  strings \<open>high\<close>, \<open>medium\<close>, \<open>low\<close> (a capitalised \<open>High\<close>, any other text, \<open>None\<close>, a
  number) has the sort key 2 of \<open>medium\<close>, and sorting places it where it would stand
  with the priority \<open>medium\<close>: replacing such priorities by \<open>medium\<close> before the sort or
  after it gives the same list. The sort returns whenever every extracted priority can
  be hashed, which every string can, and it raises \<open>TypeError\<close> otherwise.
\<close>

theorem unknown_priority_is_medium:
  "(hashable (priority x) \<longrightarrow>
      priority x \<notin> {VStr (ascii ''high''), VStr (ascii ''medium''), VStr (ascii ''low'')} \<longrightarrow>
        priority_key x = Inr 2
      \<and> priority_key x = priority_key (x\<lparr>priority := VStr (ascii ''medium'')\<rparr>))
   \<and> sort_reverse priority_key (map as_medium recs)
       = (case sort_reverse priority_key recs of
            Inl e \<Rightarrow> Inl e
          | Inr sorted_recs \<Rightarrow> Inr (map as_medium sorted_recs))
   \<and> (extract_recommendations stages = Inr recs \<longrightarrow>
        (list_all (\<lambda>r. hashable (priority r)) recs \<longrightarrow>
           (\<exists>sorted_recs. generate_prioritized_recommendations stages = Inr sorted_recs
              \<and> mset sorted_recs = mset recs))
      \<and> (\<not> list_all (\<lambda>r. hashable (priority r)) recs \<longrightarrow>
           generate_prioritized_recommendations stages = Inl TypeError))"
proof (intro conjI impI)
  assume "hashable (priority x)"
    and "priority x \<notin> {VStr (ascii ''high''), VStr (ascii ''medium''), VStr (ascii ''low'')}"
  then show "priority_key x = Inr 2"
    by (rule priority_key_default)
  then show "priority_key x = priority_key (x\<lparr>priority := VStr (ascii ''medium'')\<rparr>)"
    by (simp add: priority_key_medium)
next
  have "\<And>r. priority_key (as_medium r) = priority_key r"
    by (simp add: as_medium_def priority_key_default priority_key_medium)
  then show "sort_reverse priority_key (map as_medium recs)
       = (case sort_reverse priority_key recs of
            Inl e \<Rightarrow> Inl e
          | Inr sorted_recs \<Rightarrow> Inr (map as_medium sorted_recs))"
    by (rule sort_reverse_map)
next
  assume extracted: "extract_recommendations stages = Inr recs"
    and "list_all (\<lambda>r. hashable (priority r)) recs"
  then have "list_all (\<lambda>x. \<exists>k. priority_key x = Inr k) recs"
    by (simp add: priority_key_hashable)
  from sort_reverse_returns [OF this] obtain sorted_recs where
    sorted_recs: "sort_reverse priority_key recs = Inr sorted_recs"
    by blast
  from mset_sort_reverse [OF sorted_recs] extracted sorted_recs
  show "\<exists>sorted_recs. generate_prioritized_recommendations stages = Inr sorted_recs
              \<and> mset sorted_recs = mset recs"
    by (simp add: generate_prioritized_recommendations_def)
next
  assume "extract_recommendations stages = Inr recs"
    and "\<not> list_all (\<lambda>r. hashable (priority r)) recs"
  then show "generate_prioritized_recommendations stages = Inl TypeError"
    by (simp add: generate_prioritized_recommendations_def sort_raises_TypeError)
qed

theorem unknown_priority_is_medium_witness:
  "priority_key \<lparr>priority = VStr (ascii ''High''), description = VStr (ascii ''y''),
                 source = ascii ''research''\<rparr> = Inr 2
   \<and> generate_prioritized_recommendations odd_priorities
       = Inr [\<lparr>priority = VStr (ascii ''high''), description = VStr (ascii ''w''),
               source = ascii ''research''\<rparr>,
              \<lparr>priority = VStr (ascii ''High''), description = VStr (ascii ''y''),
               source = ascii ''research''\<rparr>,
              \<lparr>priority = VStr (ascii ''urgent''), description = VStr (ascii ''z''),
               source = ascii ''research''\<rparr>,
              \<lparr>priority = VStr (ascii ''low''), description = VStr (ascii ''x''),
               source = ascii ''research''\<rparr>]
   \<and> generate_prioritized_recommendations list_priority = Inl TypeError"
proof -
  let ?x = "\<lparr>priority = VStr (ascii ''low''), description = VStr (ascii ''x''),
             source = ascii ''research''\<rparr>"
  let ?y = "\<lparr>priority = VStr (ascii ''High''), description = VStr (ascii ''y''),
             source = ascii ''research''\<rparr>"
  let ?z = "\<lparr>priority = VStr (ascii ''urgent''), description = VStr (ascii ''z''),
             source = ascii ''research''\<rparr>"
  let ?w = "\<lparr>priority = VStr (ascii ''high''), description = VStr (ascii ''w''),
             source = ascii ''research''\<rparr>"
  let ?l = "\<lparr>priority = VList [VStr (ascii ''high'')], description = VStr (ascii ''y''),
             source = ascii ''research''\<rparr>"
  have unknown: "hashable (priority ?y)"
    "priority ?y \<notin> {VStr (ascii ''high''), VStr (ascii ''medium''), VStr (ascii ''low'')}"
    by (simp_all add: ascii_def)
  have key: "priority_key ?y = Inr 2"
    using unknown_priority_is_medium [where x = ?y] unknown by blast
  have extracted: "extract_recommendations odd_priorities = Inr [?x, ?y, ?z, ?w]"
    by (simp add: odd_priorities_def rec_item_def)
  have "list_all (\<lambda>r. hashable (priority r)) [?x, ?y, ?z, ?w]" by simp
  with unknown_priority_is_medium [where stages = odd_priorities and recs = "[?x, ?y, ?z, ?w]"]
    extracted
  obtain sorted_recs where
    "generate_prioritized_recommendations odd_priorities = Inr sorted_recs"
    by blast
  moreover have "sort_reverse priority_key [?x, ?y, ?z, ?w] = Inr [?w, ?y, ?z, ?x]"
    by (simp add: sort_reverse_def priority_key_def priority_order_def ascii_def)
  ultimately have order: "generate_prioritized_recommendations odd_priorities
      = Inr [?w, ?y, ?z, ?x]"
    using extracted by (simp add: generate_prioritized_recommendations_def)
  have unhashable: "extract_recommendations list_priority = Inr [?x, ?l, ?w]"
    by (simp add: list_priority_def rec_item_def)
  have "\<not> list_all (\<lambda>r. hashable (priority r)) [?x, ?l, ?w]" by simp
  with unknown_priority_is_medium [where stages = list_priority and recs = "[?x, ?l, ?w]"]
    unhashable
  have "generate_prioritized_recommendations list_priority = Inl TypeError"
    by blast
  with key order show ?thesis by simp
qed

section \<open>Properties of the executor\<close>

lemma execute_agent_stage_returns:
  "stage \<in> set [ascii ''data_analysis'', ascii ''research'', ascii ''business_advisor'']
   \<Longrightarrow> execute_agent_stage stage query context agents
       = Some (call_agent stage query context agents)"
  by (auto simp: execute_agent_stage_def)

text \<open>
  An exception of the provider's call, or of its summary method, or a provider missing
  from \<open>agents\<close>, becomes a failed stage result with the message; nothing is raised.
\<close>

lemma provider_exception_is_recorded:
  "agents stage = Some agent \<Longrightarrow> invoke agent query context = Inl message
   \<Longrightarrow> call_agent stage query context agents = AgentFailure message"
  by (simp add: call_agent_def)

lemma call_agent_dict_stage:
  "dict_providers agents \<Longrightarrow> dict_stage (call_agent stage query context agents)"
  by (auto simp: call_agent_def dict_providers_def split: option.splits sum.splits)

lemma descriptions_dicts: "list_all is_dict xs \<Longrightarrow> \<exists>ds. descriptions xs = Inr ds"
proof (induction xs)
  case Nil
  then show ?case by simp
next
  case (Cons x xs)
  then show ?case by (cases x) auto
qed

lemma extract_key_insights_dicts:
  "dict_stage stage_result \<Longrightarrow> \<exists>found. extract_key_insights stage_result = Inr found"
proof (cases stage_result)
  case (AgentSuccess summary result)
  assume "dict_stage stage_result"
  with AgentSuccess have
    "list_all is_dict (case raw_insights result of None \<Rightarrow> [] | Some xs \<Rightarrow> xs)"
    "list_all is_dict (case raw_recommendations result of None \<Rightarrow> [] | Some xs \<Rightarrow> xs)"
    by (simp_all add: only_dicts_def)
  then obtain a b where "listed (raw_insights result) = Inr a"
    "listed (raw_recommendations result) = Inr b"
    using descriptions_dicts by (fastforce simp: listed_def split: option.splits)
  with AgentSuccess show ?thesis by simp
qed simp_all

lemma collect_insights_dicts:
  "dict_stages stages \<Longrightarrow> \<exists>found. collect_insights stages insights = Inr found"
proof (induction stages arbitrary: insights)
  case Nil
  then show ?case by simp
next
  case (Cons entry stages)
  obtain stage_name stage_result where entry: "entry = (stage_name, stage_result)"
    by (cases entry)
  from Cons.prems entry have "dict_stage stage_result" "dict_stages stages"
    by (simp_all add: dict_stages_def)
  then show ?case
    using extract_key_insights_dicts [of stage_result] Cons.IH entry by auto
qed

lemma all_insights_dicts:
  "dict_stages stages \<Longrightarrow> \<exists>found. all_insights stages = Inr found"
proof (induction stages)
  case Nil
  then show ?case by simp
next
  case (Cons entry stages)
  obtain stage_name stage_result where entry: "entry = (stage_name, stage_result)"
    by (cases entry)
  from Cons.prems entry have "dict_stage stage_result" "dict_stages stages"
    by (simp_all add: dict_stages_def)
  then show ?case
    using extract_key_insights_dicts [of stage_result] Cons.IH entry by auto
qed

lemma stage_recommendations_dicts:
  "list_all is_dict recs \<Longrightarrow> list_all hashable_priority recs
   \<Longrightarrow> \<exists>found. stage_recommendations stage_name recs = Inr found
               \<and> list_all (\<lambda>x. hashable (priority x)) found"
proof (induction recs)
  case Nil
  then show ?case by simp
next
  case (Cons x xs)
  then show ?case by (cases x) (auto split: option.splits)
qed

lemma extract_recommendations_dicts:
  "dict_stages stages
   \<Longrightarrow> \<exists>found. extract_recommendations stages = Inr found
               \<and> list_all (\<lambda>x. hashable (priority x)) found"
proof (induction stages)
  case Nil
  then show ?case by simp
next
  case (Cons entry stages)
  obtain stage_name stage_result where entry: "entry = (stage_name, stage_result)"
    by (cases entry)
  from Cons.prems entry have here: "dict_stage stage_result" and "dict_stages stages"
    by (simp_all add: dict_stages_def)
  then obtain others where others: "extract_recommendations stages = Inr others"
    "list_all (\<lambda>x. hashable (priority x)) others"
    using Cons.IH by blast
  show ?case
  proof (cases stage_result)
    case (AgentSuccess summary result)
    with here have
      "list_all is_dict (case raw_recommendations result of None \<Rightarrow> [] | Some xs \<Rightarrow> xs)"
      "list_all hashable_priority
         (case raw_recommendations result of None \<Rightarrow> [] | Some xs \<Rightarrow> xs)"
      by (simp_all add: only_dicts_def)
    then obtain found where
      "(case raw_recommendations result of
          None \<Rightarrow> Inr []
        | Some recs \<Rightarrow> stage_recommendations stage_name recs) = Inr found"
      "list_all (\<lambda>x. hashable (priority x)) found"
      using stage_recommendations_dicts [of _ stage_name]
      by (cases "raw_recommendations result") auto
    with others entry AgentSuccess show ?thesis by simp
  qed (simp_all add: entry others)
qed

lemma dict_stages_update:
  "dict_stages stages \<Longrightarrow> dict_stage result \<Longrightarrow> dict_stages (AList.update stage result stages)"
  by (induction stages) (auto simp: dict_stages_def)

lemma agent_branch:
  "stage \<in> set [ascii ''data_analysis'', ascii ''research'', ascii ''business_advisor'']
   \<Longrightarrow> (case execute_agent_stage stage query context agents of
          Some result \<Rightarrow> Inr (AList.update stage result stages)
        | None \<Rightarrow> Inl AttributeError)
       = Inr (AList.update stage (call_agent stage query context agents) stages)"
  by (simp only: execute_agent_stage_returns option.case)

text \<open>
  One turn of the loop either leaves the stage dict as it is (a name without a branch),
  or stores one result under the stage's name, or raises out of a derived stage.
\<close>

lemma run_stage_cases:
  "run_stage stage query context agents stages = Inr stages
   \<or> (\<exists>result. run_stage stage query context agents stages
                   = Inr (AList.update stage result stages)
        \<and> (result = call_agent stage query context agents
             \<or> cross_validate_results stages = Inr result
             \<or> create_strategic_synthesis stages query = Inr result
             \<or> (\<exists>key text. result = Placeholder key text)))
   \<or> (\<exists>e. run_stage stage query context agents stages = Inl e
        \<and> (cross_validate_results stages = Inl e
             \<or> create_strategic_synthesis stages query = Inl e))"
proof (cases "stage \<in> set [ascii ''data_analysis'', ascii ''research'', ascii ''business_advisor'']")
  case True
  have "run_stage stage query context agents stages
               = Inr (AList.update stage (call_agent stage query context agents) stages)"
    unfolding run_stage_def by (simp only: if_P [OF True] agent_branch [OF True])
  then show ?thesis by blast
next
  case not_agent: False
  show ?thesis
  proof (cases "stage = ascii ''cross_validation''")
    case True
    have "run_stage stage query context agents stages
                 = (case cross_validate_results stages of
                      Inl e \<Rightarrow> Inl e
                    | Inr result \<Rightarrow> Inr (AList.update stage result stages))"
      unfolding run_stage_def by (simp only: if_not_P [OF not_agent] if_P [OF True])
    then show ?thesis
      by (cases "cross_validate_results stages") auto
  next
    case not_validation: False
    show ?thesis
    proof (cases "stage = ascii ''strategic_synthesis''")
      case True
      have "run_stage stage query context agents stages
                   = (case create_strategic_synthesis stages query of
                        Inl e \<Rightarrow> Inl e
                      | Inr result \<Rightarrow> Inr (AList.update stage result stages))"
        unfolding run_stage_def
        by (simp only: if_not_P [OF not_agent] if_not_P [OF not_validation] if_P [OF True])
      then show ?thesis
        by (cases "create_strategic_synthesis stages query") auto
    next
      case not_synthesis: False
      have rest: "run_stage stage query context agents stages
        = (if stage = ascii ''competitive_analysis''
           then Inr (AList.update stage (perform_competitive_analysis stages query) stages)
           else if stage = ascii ''implementation_plan''
           then Inr (AList.update stage (create_implementation_plan stages query) stages)
           else if stage = ascii ''predictive_modeling''
           then Inr (AList.update stage (perform_predictive_modeling stages context) stages)
           else if stage = ascii ''scenario_planning''
           then Inr (AList.update stage (create_scenario_planning stages query) stages)
           else if stage = ascii ''impact_assessment''
           then Inr (AList.update stage (assess_holiday_impact stages context) stages)
           else if stage = ascii ''holiday_strategy''
           then Inr (AList.update stage (create_holiday_strategy stages query) stages)
           else if stage = ascii ''seasonal_optimization''
           then Inr (AList.update stage (optimize_seasonal_patterns stages context) stages)
           else if stage = ascii ''year_round_strategy''
           then Inr (AList.update stage (create_year_round_strategy stages query) stages)
           else Inr stages)"
        unfolding run_stage_def
        by (simp only: if_not_P [OF not_agent] if_not_P [OF not_validation]
              if_not_P [OF not_synthesis])
      have "run_stage stage query context agents stages = Inr stages
                 \<or> (\<exists>key text. run_stage stage query context agents stages
                       = Inr (AList.update stage (Placeholder key text) stages))"
        unfolding rest perform_competitive_analysis_def create_implementation_plan_def
          perform_predictive_modeling_def create_scenario_planning_def
          assess_holiday_impact_def create_holiday_strategy_def
          optimize_seasonal_patterns_def create_year_round_strategy_def
        by (simp only: if_distrib [of "\<lambda>r. r = Inr stages \<or> (\<exists>key text. r = Inr (AList.update stage (Placeholder key text) stages))"] split: if_split)
           blast
      then show ?thesis by blast
    qed
  qed
qed

lemma run_stage_dicts:
  assumes "dict_providers agents" "dict_stages stages"
  shows "\<exists>stages'. run_stage stage query context agents stages = Inr stages' \<and> dict_stages stages'"
proof -
  have agent: "dict_stage (call_agent stage query context agents)"
    using assms(1) by (rule call_agent_dict_stage)
  obtain validation where validation: "cross_validate_results stages = Inr validation"
    using collect_insights_dicts [OF assms(2), of "[]"]
    by (auto simp: cross_validate_results_def)
  then have validation_ok: "dict_stage validation"
    by (auto simp: cross_validate_results_def split: sum.splits)
  obtain synthesis where synthesis: "create_strategic_synthesis stages query = Inr synthesis"
    using all_insights_dicts [OF assms(2)]
    by (auto simp: create_strategic_synthesis_def)
  then have synthesis_ok: "dict_stage synthesis"
    by (auto simp: create_strategic_synthesis_def split: sum.splits)
  from run_stage_cases [of stage query "context" agents stages]
  show ?thesis
  proof (elim disjE exE conjE)
    assume "run_stage stage query context agents stages = Inr stages"
    with assms(2) show ?thesis by simp
  next
    fix result
    assume run: "run_stage stage query context agents stages
                   = Inr (AList.update stage result stages)"
      and "result = call_agent stage query context agents"
    with agent assms(2) show ?thesis by (simp add: dict_stages_update)
  next
    fix result
    assume run: "run_stage stage query context agents stages
                   = Inr (AList.update stage result stages)"
      and "cross_validate_results stages = Inr result"
    with validation validation_ok assms(2) show ?thesis by (simp add: dict_stages_update)
  next
    fix result
    assume run: "run_stage stage query context agents stages
                   = Inr (AList.update stage result stages)"
      and "create_strategic_synthesis stages query = Inr result"
    with synthesis synthesis_ok assms(2) show ?thesis by (simp add: dict_stages_update)
  next
    fix result key body
    assume run: "run_stage stage query context agents stages
                   = Inr (AList.update stage result stages)"
      and "result = Placeholder key body"
    with assms(2) show ?thesis by (simp add: dict_stages_update)
  next
    fix e
    assume "cross_validate_results stages = Inl e"
    with validation show ?thesis by simp
  next
    fix e
    assume "create_strategic_synthesis stages query = Inl e"
    with synthesis show ?thesis by simp
  qed
qed

lemma run_stages_dicts:
  "dict_providers agents \<Longrightarrow> dict_stages stages
   \<Longrightarrow> \<exists>stages'. run_stages names query context agents stages = Inr stages' \<and> dict_stages stages'"
proof (induction names arbitrary: stages)
  case Nil
  then show ?case by simp
next
  case (Cons name names)
  from run_stage_dicts [OF Cons.prems] obtain stages1 where
    "run_stage name query context agents stages = Inr stages1" "dict_stages stages1"
    by blast
  with Cons.IH [OF Cons.prems(1), of stages1] show ?case by simp
qed

text \<open>
  When every provider that returns hands back dict items only, with priorities that
  can be hashed, the run returns a result whatever the workflow and whichever providers
  raise.
\<close>

lemma run_returns_when_items_are_dicts:
  assumes "dict_providers agents"
  shows "\<exists>results. execute_enhanced_workflow workflow query context agents now = Inr results"
proof -
  have "dict_stages []" by (simp add: dict_stages_def)
  from run_stages_dicts [OF assms this] obtain stages where
    stages: "run_stages (wf_workflow workflow) query context agents [] = Inr stages"
    "dict_stages stages"
    by blast
  from extract_recommendations_dicts [OF stages(2)] obtain found where
    found: "extract_recommendations stages = Inr found"
    "list_all (\<lambda>x. hashable (priority x)) found"
    by blast
  then have "list_all (\<lambda>x. \<exists>k. priority_key x = Inr k) found"
    by (simp add: priority_key_hashable)
  from sort_reverse_returns [OF this] obtain recs where
    "sort_reverse priority_key found = Inr recs"
    by blast
  with stages(1) found(1) show ?thesis
    by (simp add: execute_enhanced_workflow_def generate_prioritized_recommendations_def)
qed
subsection \<open>Order of the stage results\<close>

lemma run_stage_keys:
  assumes "run_stage stage query context agents stages = Inr stages'"
    and "stage \<in> set handled_stages"
  shows "map fst stages' = (if stage \<in> set (map fst stages) then map fst stages
                            else map fst stages @ [stage])"
proof -
  have stored: "\<exists>result. stages' = AList.update stage result stages"
  proof (cases "stage \<in> set [ascii ''data_analysis'', ascii ''research'', ascii ''business_advisor'']")
    case True
    have "run_stage stage query context agents stages
               = Inr (AList.update stage (call_agent stage query context agents) stages)"
      unfolding run_stage_def by (simp only: if_P [OF True] agent_branch [OF True])
    with assms(1) show ?thesis by auto
  next
    case False
    with assms show ?thesis
      unfolding run_stage_def handled_stages_def
      by (auto split: if_splits sum.splits)
  qed
  then obtain result where "stages' = AList.update stage result stages" by blast
  then show ?thesis by (simp add: update_keys)
qed

lemma run_stages_keys:
  "run_stages names query context agents stages = Inr stages'
   \<Longrightarrow> set names \<subseteq> set handled_stages \<Longrightarrow> distinct names
   \<Longrightarrow> set names \<inter> set (map fst stages) = {}
   \<Longrightarrow> map fst stages' = map fst stages @ names"
proof (induction names arbitrary: stages)
  case Nil
  then show ?case by simp
next
  case (Cons name names)
  from Cons.prems(1) obtain stages1 where
    first: "run_stage name query context agents stages = Inr stages1"
    and rest: "run_stages names query context agents stages1 = Inr stages'"
    by (auto split: sum.splits)
  from Cons.prems have "name \<in> set handled_stages" "name \<notin> set (map fst stages)"
    by auto
  with run_stage_keys [OF first] have keys1: "map fst stages1 = map fst stages @ [name]"
    by simp
  with Cons.prems have "set names \<inter> set (map fst stages1) = {}"
    by auto
  with Cons.IH [OF rest] Cons.prems keys1 show ?case by simp
qed

lemma registry_workflows:
  assumes "workflow \<in> snd ` set workflow_templates"
  shows "set (wf_workflow workflow) \<subseteq> set handled_stages" "distinct (wf_workflow workflow)"
proof -
  from assms consider "workflow = strategic_analysis" | "workflow = market_analysis"
    | "workflow = predictive_analysis" | "workflow = holiday_impact_analysis"
    | "workflow = seasonal_analysis"
    by (auto simp: workflow_templates_def)
  then have "set (wf_workflow workflow) \<subseteq> set handled_stages \<and> distinct (wf_workflow workflow)"
  proof cases
    case 1
    then show ?thesis by (simp add: strategic_analysis_def handled_stages_def ascii_def)
  next
    case 2
    then show ?thesis by (simp add: market_analysis_def handled_stages_def ascii_def)
  next
    case 3
    then show ?thesis by (simp add: predictive_analysis_def handled_stages_def ascii_def)
  next
    case 4
    then show ?thesis by (simp add: holiday_impact_analysis_def handled_stages_def ascii_def)
  next
    case 5
    then show ?thesis by (simp add: seasonal_analysis_def handled_stages_def ascii_def)
  qed
  then show "set (wf_workflow workflow) \<subseteq> set handled_stages" "distinct (wf_workflow workflow)"
    by simp_all
qed
subsection \<open>Sample runs\<close>

lemma dict_providers_all_succeed: "dict_providers all_succeed"
  by (auto simp: dict_providers_def all_succeed_def returning_def only_dicts_def no_lists_def
        split: if_splits)


lemma agent_stages_research_fails:
  "run_stages [ascii ''data_analysis'', ascii ''research'', ascii ''business_advisor'']
     (ascii ''hola'') None research_fails []
   = Inr [(ascii ''data_analysis'',
           AgentSuccess (ascii ''Resumen de datos'')
             \<lparr>raw_insights = Some [StrItem (ascii ''Total de pasajeros: 1000'')],
              raw_recommendations = None\<rparr>),
          (ascii ''research'', AgentFailure (ascii ''boom'')),
          (ascii ''business_advisor'', AgentSuccess (ascii ''Resumen de negocio'') no_lists)]"
  by (simp add: run_stage_def execute_agent_stage_def call_agent_def research_fails_def
        returning_def raising_def ascii_def)

lemma cross_validation_raises:
  "cross_validate_results
     [(ascii ''data_analysis'',
       AgentSuccess (ascii ''Resumen de datos'')
         \<lparr>raw_insights = Some [StrItem (ascii ''Total de pasajeros: 1000'')],
          raw_recommendations = None\<rparr>),
      (ascii ''research'', AgentFailure (ascii ''boom'')),
      (ascii ''business_advisor'', AgentSuccess (ascii ''Resumen de negocio'') no_lists)]
   = Inl AttributeError"
  by (simp add: cross_validate_results_def listed_def)

lemma run_stages_append:
  "run_stages (names @ names') query context agents stages
   = (case run_stages names query context agents stages of
        Inl e \<Rightarrow> Inl e
      | Inr stages' \<Rightarrow> run_stages names' query context agents stages')"
  by (induction names arbitrary: stages) (auto split: sum.splits)

lemma strategic_stages_research_fails:
  "run_stages (wf_workflow strategic_analysis) (ascii ''hola'') None research_fails []
   = Inl AttributeError"
proof -
  have split: "wf_workflow strategic_analysis
      = [ascii ''data_analysis'', ascii ''research'', ascii ''business_advisor'']
        @ [ascii ''cross_validation'', ascii ''strategic_synthesis'']"
    by (simp add: strategic_analysis_def)
  have "run_stage (ascii ''cross_validation'') (ascii ''hola'') None research_fails
     [(ascii ''data_analysis'',
       AgentSuccess (ascii ''Resumen de datos'')
         \<lparr>raw_insights = Some [StrItem (ascii ''Total de pasajeros: 1000'')],
          raw_recommendations = None\<rparr>),
      (ascii ''research'', AgentFailure (ascii ''boom'')),
      (ascii ''business_advisor'', AgentSuccess (ascii ''Resumen de negocio'') no_lists)]
     = Inl AttributeError"
    unfolding run_stage_def cross_validation_raises by (simp add: ascii_def)
  then show ?thesis
    unfolding split run_stages_append agent_stages_research_fails by simp
qed

lemma market_stages_research_fails:
  "run_stages (wf_workflow market_analysis) (ascii ''hola'') None research_fails []
   = Inr [(ascii ''data_analysis'',
           AgentSuccess (ascii ''Resumen de datos'')
             \<lparr>raw_insights = Some [StrItem (ascii ''Total de pasajeros: 1000'')],
              raw_recommendations = None\<rparr>),
          (ascii ''research'', AgentFailure (ascii ''boom'')),
          (ascii ''business_advisor'', AgentSuccess (ascii ''Resumen de negocio'') no_lists),
          (ascii ''competitive_analysis'',
           Placeholder ''analysis'' (ascii ''Competitive analysis placeholder'')),
          (ascii ''implementation_plan'',
           Placeholder ''plan'' (ascii ''Implementation plan placeholder''))]"
proof -
  have split: "wf_workflow market_analysis
      = [ascii ''data_analysis'', ascii ''research'', ascii ''business_advisor'']
        @ [ascii ''competitive_analysis'', ascii ''implementation_plan'']"
    by (simp add: market_analysis_def)
  show ?thesis
    unfolding split run_stages_append agent_stages_research_fails
    by (simp add: run_stage_def perform_competitive_analysis_def create_implementation_plan_def
          ascii_def)
qed

lemma market_synthesis_research_fails:
  "generate_final_synthesis
     [(ascii ''data_analysis'',
       AgentSuccess (ascii ''Resumen de datos'')
         \<lparr>raw_insights = Some [StrItem (ascii ''Total de pasajeros: 1000'')],
          raw_recommendations = None\<rparr>),
      (ascii ''research'', AgentFailure (ascii ''boom'')),
      (ascii ''business_advisor'', AgentSuccess (ascii ''Resumen de negocio'') no_lists),
      (ascii ''competitive_analysis'',
       Placeholder ''analysis'' (ascii ''Competitive analysis placeholder'')),
      (ascii ''implementation_plan'',
       Placeholder ''plan'' (ascii ''Implementation plan placeholder''))]
     market_analysis
   = join [10]
       [ascii ''## '' @ [127919] @ ascii '' An'' @ [225] @ ascii ''lisis de Mercado Integrado'',
        [],
        ascii ''### '' @ [128202] @ ascii '' Resumen Ejecutivo'',
        [],
        ascii ''### '' @ [128269] @ ascii '' Data Analysis'',
        [],
        ascii ''Resumen de datos'',
        [],
        ascii ''### '' @ [128269] @ ascii '' Business Advisor'',
        [],
        ascii ''Resumen de negocio'',
        [],
        ascii ''### '' @ [128269] @ ascii '' Competitive Analysis'',
        [],
        [],
        ascii ''### '' @ [128269] @ ascii '' Implementation Plan'',
        [],
        []]"
  by (simp add: generate_final_synthesis_def market_analysis_def title_def replace_underscore_def
        is_letter_def upper_cp_def lower_letter_def ascii_def)

text \<open>A stage that did not succeed adds nothing to the final synthesis.\<close>

lemma failed_stage_not_rendered:
  "\<not> success result
   \<Longrightarrow> generate_final_synthesis (before @ (stage_name, result) # after) workflow
       = generate_final_synthesis (before @ after) workflow"
  by (cases result) (simp_all add: generate_final_synthesis_def)


section \<open>Run results\<close>

text \<open>
  Claim C9. For every template of the registry and every run of it that returns, the
  stage results stored under \<open>stages\<close> are keyed by the names of the template's
  \<open>workflow\<close> list and stand in the order of that list. The executor runs the stages
  one after the other in that order, so the order of completion is the same one.
\<close>

theorem stage_results_in_template_order:
  "workflow \<in> snd ` set workflow_templates
   \<Longrightarrow> execute_enhanced_workflow workflow query context agents now = Inr results
   \<Longrightarrow> \<exists>stages. map_of results ''stages'' = Some (RStages stages)
                \<and> map fst stages = wf_workflow workflow"
proof -
  assume registry: "workflow \<in> snd ` set workflow_templates"
  assume "execute_enhanced_workflow workflow query context agents now = Inr results"
  from execute_enhanced_workflow_result [OF this] obtain stages where
    run: "run_stages (wf_workflow workflow) query context agents [] = Inr stages"
    and entry: "map_of results ''stages'' = Some (RStages stages)"
    by auto
  from run_stages_keys [OF run registry_workflows [OF registry]]
  have "map fst stages = wf_workflow workflow" by simp
  with entry show ?thesis by blast
qed

theorem stage_results_in_template_order_witness:
  "market_analysis \<in> snd ` set workflow_templates
   \<and> (\<exists>results stages.
         market_run_all_succeed = Inr results
       \<and> map_of results ''stages'' = Some (RStages stages)
       \<and> map fst stages
           = [ascii ''data_analysis'', ascii ''research'', ascii ''business_advisor'',
              ascii ''competitive_analysis'', ascii ''implementation_plan''])"
proof -
  have registry: "market_analysis \<in> snd ` set workflow_templates"
    by (simp add: workflow_templates_def)
  from run_returns_when_items_are_dicts [OF dict_providers_all_succeed]
  obtain results where
    run: "execute_enhanced_workflow market_analysis (ascii ''hola'') None all_succeed
            (ascii ''2025-01-01T00:00:00'') = Inr results"
    by blast
  from stage_results_in_template_order [OF registry run] obtain stages where
    "map_of results ''stages'' = Some (RStages stages)"
    "map fst stages = wf_workflow market_analysis"
    by blast
  with registry run show ?thesis
    by (auto simp: market_run_all_succeed_def market_analysis_def)
qed




text \<open>
  Claim C1. The exception of a provider is recorded as a failed stage result with its
  message: in the sample run the research stage becomes the failure \<open>boom\<close>. But the
  run of the strategic template with these providers returns no run result. The
  data-analysis provider has reported its insights as strings, as the repository's
  data-analysis agent does, and the cross-validation stage that follows calls \<open>get\<close> on
  each insight; the \<open>AttributeError\<close> is caught nowhere in the executor and ends the run.
\<close>

theorem failure_recorded_but_run_aborted:
  "call_agent (ascii ''research'') (ascii ''hola'') None research_fails
     = AgentFailure (ascii ''boom'')
   \<and> strategic_run_research_fails = Inl AttributeError"
proof
  show "call_agent (ascii ''research'') (ascii ''hola'') None research_fails
     = AgentFailure (ascii ''boom'')"
    by (simp add: call_agent_def research_fails_def raising_def ascii_def)
  show "strategic_run_research_fails = Inl AttributeError"
    unfolding strategic_run_research_fails_def execute_enhanced_workflow_def
      strategic_stages_research_fails
    by simp
qed

text \<open>
  Claim C2. In the run of the market template in which the research provider raises
  \<open>boom\<close> and the two other providers succeed, the research stage is stored as a failed
  stage, but the narrative stored under \<open>synthesis\<close> has the header, the sections of
  the stages that succeeded, and nothing else: no section lists the failed stage, and
  neither its name nor its error message occurs in the text.
\<close>

theorem failed_stage_missing_from_synthesis:
  "map_of (projr market_run_research_fails) ''stages''
     = Some (RStages
         [(ascii ''data_analysis'',
           AgentSuccess (ascii ''Resumen de datos'')
             \<lparr>raw_insights = Some [StrItem (ascii ''Total de pasajeros: 1000'')],
              raw_recommendations = None\<rparr>),
          (ascii ''research'', AgentFailure (ascii ''boom'')),
          (ascii ''business_advisor'', AgentSuccess (ascii ''Resumen de negocio'') no_lists),
          (ascii ''competitive_analysis'',
           Placeholder ''analysis'' (ascii ''Competitive analysis placeholder'')),
          (ascii ''implementation_plan'',
           Placeholder ''plan'' (ascii ''Implementation plan placeholder''))])
   \<and> map_of (projr market_run_research_fails) ''synthesis''
     = Some (RStr (join [10]
         [ascii ''## '' @ [127919] @ ascii '' An'' @ [225] @ ascii ''lisis de Mercado Integrado'',
          [],
          ascii ''### '' @ [128202] @ ascii '' Resumen Ejecutivo'',
          [],
          ascii ''### '' @ [128269] @ ascii '' Data Analysis'',
          [],
          ascii ''Resumen de datos'',
          [],
          ascii ''### '' @ [128269] @ ascii '' Business Advisor'',
          [],
          ascii ''Resumen de negocio'',
          [],
          ascii ''### '' @ [128269] @ ascii '' Competitive Analysis'',
          [],
          [],
          ascii ''### '' @ [128269] @ ascii '' Implementation Plan'',
          [],
          []]))
   \<and> any_in [ascii ''boom'', ascii ''research'', ascii ''Research'']
         (join [10]
           [ascii ''## '' @ [127919] @ ascii '' An'' @ [225] @ ascii ''lisis de Mercado Integrado'',
            [],
            ascii ''### '' @ [128202] @ ascii '' Resumen Ejecutivo'',
            [],
            ascii ''### '' @ [128269] @ ascii '' Data Analysis'',
            [],
            ascii ''Resumen de datos'',
            [],
            ascii ''### '' @ [128269] @ ascii '' Business Advisor'',
            [],
            ascii ''Resumen de negocio'',
            [],
            ascii ''### '' @ [128269] @ ascii '' Competitive Analysis'',
            [],
            [],
            ascii ''### '' @ [128269] @ ascii '' Implementation Plan'',
            [],
            []])
       = False"
proof (intro conjI)
  have recommendations:
    "generate_prioritized_recommendations
       [(ascii ''data_analysis'',
         AgentSuccess (ascii ''Resumen de datos'')
           \<lparr>raw_insights = Some [StrItem (ascii ''Total de pasajeros: 1000'')],
            raw_recommendations = None\<rparr>),
        (ascii ''research'', AgentFailure (ascii ''boom'')),
        (ascii ''business_advisor'', AgentSuccess (ascii ''Resumen de negocio'') no_lists),
        (ascii ''competitive_analysis'',
         Placeholder ''analysis'' (ascii ''Competitive analysis placeholder'')),
        (ascii ''implementation_plan'',
         Placeholder ''plan'' (ascii ''Implementation plan placeholder''))]
     = Inr []"
    by (simp add: generate_prioritized_recommendations_def no_lists_def sort_reverse_def)
  show "map_of (projr market_run_research_fails) ''stages''
     = Some (RStages
         [(ascii ''data_analysis'',
           AgentSuccess (ascii ''Resumen de datos'')
             \<lparr>raw_insights = Some [StrItem (ascii ''Total de pasajeros: 1000'')],
              raw_recommendations = None\<rparr>),
          (ascii ''research'', AgentFailure (ascii ''boom'')),
          (ascii ''business_advisor'', AgentSuccess (ascii ''Resumen de negocio'') no_lists),
          (ascii ''competitive_analysis'',
           Placeholder ''analysis'' (ascii ''Competitive analysis placeholder'')),
          (ascii ''implementation_plan'',
           Placeholder ''plan'' (ascii ''Implementation plan placeholder''))])"
    unfolding market_run_research_fails_def execute_enhanced_workflow_def
      market_stages_research_fails
    by (simp add: recommendations)
  show "map_of (projr market_run_research_fails) ''synthesis''
     = Some (RStr (join [10]
         [ascii ''## '' @ [127919] @ ascii '' An'' @ [225] @ ascii ''lisis de Mercado Integrado'',
          [],
          ascii ''### '' @ [128202] @ ascii '' Resumen Ejecutivo'',
          [],
          ascii ''### '' @ [128269] @ ascii '' Data Analysis'',
          [],
          ascii ''Resumen de datos'',
          [],
          ascii ''### '' @ [128269] @ ascii '' Business Advisor'',
          [],
          ascii ''Resumen de negocio'',
          [],
          ascii ''### '' @ [128269] @ ascii '' Competitive Analysis'',
          [],
          [],
          ascii ''### '' @ [128269] @ ascii '' Implementation Plan'',
          [],
          []]))"
    unfolding market_run_research_fails_def execute_enhanced_workflow_def
      market_stages_research_fails
    by (simp add: recommendations market_synthesis_research_fails)
  show "any_in [ascii ''boom'', ascii ''research'', ascii ''Research'']
         (join [10]
           [ascii ''## '' @ [127919] @ ascii '' An'' @ [225] @ ascii ''lisis de Mercado Integrado'',
            [],
            ascii ''### '' @ [128202] @ ascii '' Resumen Ejecutivo'',
            [],
            ascii ''### '' @ [128269] @ ascii '' Data Analysis'',
            [],
            ascii ''Resumen de datos'',
            [],
            ascii ''### '' @ [128269] @ ascii '' Business Advisor'',
            [],
            ascii ''Resumen de negocio'',
            [],
            ascii ''### '' @ [128269] @ ascii '' Competitive Analysis'',
            [],
            [],
            ascii ''### '' @ [128269] @ ascii '' Implementation Plan'',
            [],
            []])
       = False"
    by (simp add: any_in_def ascii_def)
qed

end
